theory Spec2Isabelle
  imports Main "HOL-Library.Word" "HOL-Library.Sublist"
begin

section \<open>The telemedicine application: data model\<close>

text \<open>
  The development embeds the handlers of \<^verbatim>\<open>src/app/welcome/page.tsx\<close> (patient and doctor
  dashboards) and the sign-up of \<^verbatim>\<open>src/components/auth/AuthForm.tsx\<close>. Every handler is a
  function from the state it can see (its React state and the document store) to the
  state it leaves. What the platform decides (the signed-in user, the clock, the date
  formatter and parser, the two remote endpoints, whether a store call fails) is a field
  of the record \<open>env\<close>, so that the theorems hold for every behaviour of the platform.
\<close>

subsection \<open>JavaScript strings\<close>

text \<open>A JavaScript string is a sequence of UTF-16 code units.\<close>

type_synonym jsstring = "16 word list"

definition js :: "string \<Rightarrow> jsstring" where
  "js s = map of_char s"

text \<open>
  \<^verbatim>\<open>String.prototype.trim\<close> removes the code units of ECMAScript's WhiteSpace and
  LineTerminator productions from both ends.
\<close>

definition isWhiteSpace :: "16 word \<Rightarrow> bool" where
  "isWhiteSpace c \<longleftrightarrow>
     c = 0x0009 \<or> c = 0x000A \<or> c = 0x000B \<or> c = 0x000C \<or> c = 0x000D \<or> c = 0x0020 \<or>
     c = 0x00A0 \<or> c = 0x1680 \<or> (0x2000 \<le> c \<and> c \<le> 0x200A) \<or> c = 0x2028 \<or>
     c = 0x2029 \<or> c = 0x202F \<or> c = 0x205F \<or> c = 0x3000 \<or> c = 0xFEFF"

definition trim :: "jsstring \<Rightarrow> jsstring" where
  "trim s = rev (dropWhile isWhiteSpace (rev (dropWhile isWhiteSpace s)))"

text \<open>Truthiness of a \<^verbatim>\<open>string | null\<close> value: \<^verbatim>\<open>null\<close> and \<^verbatim>\<open>''\<close> are falsy.\<close>

fun truthy_str :: "jsstring option \<Rightarrow> bool" where
  "truthy_str None = False"
| "truthy_str (Some s) = (s \<noteq> [])"

text \<open>Truthiness of an optional boolean field: absent and \<^verbatim>\<open>false\<close> are falsy.\<close>

fun truthy_bool :: "bool option \<Rightarrow> bool" where
  "truthy_bool None = False"
| "truthy_bool (Some b) = b"

subsection \<open>Errors, notifications, records of the source\<close>

text \<open>A thrown \<^verbatim>\<open>Error\<close> with its message.\<close>

datatype error = Error (message: jsstring)

text \<open>The argument of \<^verbatim>\<open>toast({title, description, variant})\<close>.\<close>

record toast =
  title :: jsstring
  description :: jsstring
  destructive :: bool

definition mk_toast :: "string \<Rightarrow> string \<Rightarrow> toast" where
  "mk_toast t d = \<lparr>title = js t, description = js d, destructive = False\<rparr>"

datatype status = Pending | Scheduled | Completed

text \<open>Instants (\<^verbatim>\<open>Date\<close>, \<^verbatim>\<open>Timestamp\<close>) are milliseconds since the epoch.\<close>

type_synonym instant = int

text \<open>
  Document identifiers are opaque; the store hands out unused ones (\<open>autoId\<close> below),
  so they are modelled as natural numbers.
\<close>

type_synonym docid = nat

text \<open>\<^verbatim>\<open>interface AppointmentRequest\<close>; an optional field is an \<open>option\<close>.\<close>

record AppointmentRequest =
  req_id :: "docid option"
  patientId :: jsstring
  patientUsername :: jsstring
  symptoms :: jsstring
  diagnosis :: jsstring
  medication :: "jsstring option"
  status :: status
  createdAt :: instant
  scheduledDate :: "instant option"
  scheduledTime :: "jsstring option"
  flaggedForReview :: "bool option"
  resubmissionComment :: "jsstring option"

text \<open>\<^verbatim>\<open>interface Appointment\<close>.\<close>

record Appointment =
  apt_id :: "docid option"
  appointmentDate :: jsstring
  appointmentTime :: jsstring
  assignedDoctor :: jsstring
  apt_patientUsername :: jsstring
  apt_diagnosis :: "jsstring option"
  apt_medication :: "jsstring option"
  apt_scheduledDate :: "instant option"

text \<open>The document written to \<^verbatim>\<open>users\<close> at sign-up.\<close>

datatype user_type = Patient | Doctor

record UserProfile =
  username :: "jsstring option"
  email :: jsstring
  userType :: user_type

text \<open>\<^verbatim>\<open>auth.currentUser\<close>.\<close>

record user =
  uid :: jsstring
  displayName :: "jsstring option"

type_synonym blob = "8 word list"

subsection \<open>The platform\<close>

text \<open>
  What a handler cannot decide itself: \<^verbatim>\<open>auth.currentUser\<close>; the clock (\<^verbatim>\<open>new Date()\<close>);
  \<^verbatim>\<open>format(date, "PPP")\<close> of the date library; the parser of \<^verbatim>\<open>new Date(string)\<close>, where
  \<open>None\<close> is an Invalid Date; the answers of the transcription and chat endpoints; whether
  a call to the document store fails; and, for the sign-up form, the configuration and
  the identity provider.
\<close>

record env =
  currentUser :: "user option"
  now :: instant
  formatPPP :: "instant \<Rightarrow> jsstring"
  dateParse :: "jsstring \<Rightarrow> instant option"
  transcriptionEndpoint :: "blob \<Rightarrow> error + jsstring"
  chatEndpoint :: "jsstring \<Rightarrow> error + jsstring"
  getDocs_fails :: bool
  addDoc_fails :: bool
  updateDoc_fails :: bool
  setDoc_fails :: bool
  firebaseConfigured :: bool
  signInWithEmailAndPassword :: "jsstring \<Rightarrow> jsstring \<Rightarrow> error + unit"
  createUserWithEmailAndPassword :: "jsstring \<Rightarrow> jsstring \<Rightarrow> error + jsstring"
  updateProfile_fails :: bool

subsection \<open>The document store\<close>

text \<open>
  A collection is the list of its documents with their identifiers, in creation order.
  Nothing in the repository deletes a document.
\<close>

type_synonym 'a collection = "(docid \<times> 'a) list"

record db =
  db_appointmentRequests :: "AppointmentRequest collection"
  db_appointments :: "Appointment collection"
  db_users :: "(jsstring \<times> UserProfile) list"

definition autoId :: "'a collection \<Rightarrow> docid" where
  "autoId c = Suc (foldr max (map fst c) 0)"

text \<open>\<^verbatim>\<open>getDocs(query(collection, where(...)))\<close>: the documents satisfying the filter.\<close>

definition getDocs :: "env \<Rightarrow> 'a collection \<Rightarrow> ('a \<Rightarrow> bool) \<Rightarrow> error + (docid \<times> 'a) list" where
  "getDocs e c p =
     (if getDocs_fails e then Inl (Error (js ''unavailable''))
      else Inr (filter (\<lambda>(k, d). p d) c))"

text \<open>\<^verbatim>\<open>addDoc(collection, data)\<close>: a new document under an unused identifier.\<close>

definition addDoc :: "env \<Rightarrow> 'a collection \<Rightarrow> 'a \<Rightarrow> error + 'a collection" where
  "addDoc e c d =
     (if addDoc_fails e then Inl (Error (js ''unavailable''))
      else Inr (c @ [(autoId c, d)]))"

text \<open>\<^verbatim>\<open>setDoc(doc(users, uid), data)\<close>: creates the document or replaces it.\<close>

definition setDoc ::
  "env \<Rightarrow> (jsstring \<times> 'a) list \<Rightarrow> jsstring \<Rightarrow> 'a \<Rightarrow> error + (jsstring \<times> 'a) list" where
  "setDoc e c k d =
     (if setDoc_fails e then Inl (Error (js ''unavailable''))
      else if k \<in> set (map fst c)
      then Inr (map (\<lambda>(k', d'). if k' = k then (k', d) else (k', d')) c)
      else Inr (c @ [(k, d)]))"

text \<open>
  \<^verbatim>\<open>updateDoc(doc(collection, id), fields)\<close>: overwrites the named fields of an existing
  document. It throws when the identifier is \<^verbatim>\<open>undefined\<close>, when the call fails, and
  when there is no such document.
\<close>

definition updateDoc ::
  "env \<Rightarrow> 'a collection \<Rightarrow> docid option \<Rightarrow> ('a \<Rightarrow> 'a) \<Rightarrow> error + 'a collection" where
  "updateDoc e c ido f =
     (case ido of
        None \<Rightarrow> Inl (Error (js ''invalid-argument''))
      | Some k \<Rightarrow>
          if updateDoc_fails e then Inl (Error (js ''unavailable''))
          else if k \<notin> set (map fst c) then Inl (Error (js ''not-found''))
          else Inr (map (\<lambda>(k', d). if k' = k then (k', f d) else (k', d)) c))"

section \<open>The doctor's dashboard (\<^verbatim>\<open>DoctorWelcomePage\<close>)\<close>

text \<open>The component's React state, and the notifications it has shown, oldest first.\<close>

record doctor_state =
  d_appointmentRequests :: "AppointmentRequest list"
  assignedAppointments :: "Appointment list"
  selectedRequest :: "AppointmentRequest option"
  showCalendar :: bool
  date :: "instant option"
  selectedTimeSlot :: "jsstring option"
  d_medication :: jsstring
  d_toasts :: "toast list"

definition doctor_init :: "env \<Rightarrow> doctor_state" where
  "doctor_init e =
     \<lparr>d_appointmentRequests = [], assignedAppointments = [], selectedRequest = None,
      showCalendar = False, date = Some (now e), selectedTimeSlot = None,
      d_medication = [], d_toasts = []\<rparr>"

definition toast_d :: "doctor_state \<Rightarrow> toast \<Rightarrow> doctor_state" where
  "toast_d s t = s\<lparr>d_toasts := d_toasts s @ [t]\<rparr>"

text \<open>\<^verbatim>\<open>auth.currentUser?.displayName || dflt\<close>.\<close>

definition displayNameOr :: "user option \<Rightarrow> jsstring \<Rightarrow> jsstring" where
  "displayNameOr u dflt =
     (case u of
        None \<Rightarrow> dflt
      | Some usr \<Rightarrow> (if truthy_str (displayName usr) then the (displayName usr) else dflt))"

text \<open>
  The first effect of the component: the pending requests, each with its document
  identifier, without the flagged ones. The two date conversions of the source
  (\<^verbatim>\<open>toDate()\<close>) keep the instant.
\<close>

definition fetchAppointmentRequests_doctor :: "env \<Rightarrow> doctor_state \<times> db \<Rightarrow> doctor_state \<times> db" where
  "fetchAppointmentRequests_doctor e = (\<lambda>(s, d).
     case getDocs e (db_appointmentRequests d) (\<lambda>r. status r = Pending) of
       Inl err \<Rightarrow> (toast_d s (mk_toast ''Error'' ''Failed to fetch appointment requests.''), d)
     | Inr docs \<Rightarrow>
         let requests = map (\<lambda>(k, data). data\<lparr>req_id := Some k, createdAt := createdAt data,
                                scheduledDate := scheduledDate data\<rparr>) docs;
             nonFlaggedRequests = filter (\<lambda>request. \<not> truthy_bool (flaggedForReview request)) requests
         in (s\<lparr>d_appointmentRequests := nonFlaggedRequests\<rparr>, d))"

definition handleScheduleAppointment :: "AppointmentRequest \<Rightarrow> doctor_state \<Rightarrow> doctor_state" where
  "handleScheduleAppointment request s = s\<lparr>selectedRequest := Some request, showCalendar := True\<rparr>"

definition handleTimeSlotClick :: "jsstring \<Rightarrow> doctor_state \<Rightarrow> doctor_state" where
  "handleTimeSlotClick slot s = s\<lparr>selectedTimeSlot := Some slot\<rparr>"

definition schedulingFailed :: toast where
  "schedulingFailed = mk_toast ''Error'' ''Failed to schedule appointment.''"

text \<open>
  \<^verbatim>\<open>confirmScheduling\<close>: two guards, then inside one \<^verbatim>\<open>try\<close> the update of the request,
  the creation of the appointment, the reset of the form and the refresh of the queue.
  A throw at any of the three store calls runs the \<^verbatim>\<open>catch\<close>, which only notifies: what
  was written before the throw stays written.
\<close>

definition confirmScheduling :: "env \<Rightarrow> doctor_state \<times> db \<Rightarrow> doctor_state \<times> db" where
  "confirmScheduling e = (\<lambda>(s, d).
     if selectedRequest s = None \<or> date s = None \<or> \<not> truthy_str (selectedTimeSlot s)
     then (toast_d s (mk_toast ''Error'' ''Please select a date and time slot.''), d)
     else if trim (d_medication s) = []
     then (toast_d s (mk_toast ''Error'' ''Please enter basic medication details.''), d)
     else
       let request = the (selectedRequest s);
           firestoreDate = the (date s);
           slot = the (selectedTimeSlot s)
       in
       case updateDoc e (db_appointmentRequests d) (req_id request)
              (\<lambda>r. r\<lparr>status := Scheduled, scheduledDate := Some firestoreDate,
                      scheduledTime := Some slot, medication := Some (trim (d_medication s))\<rparr>) of
         Inl err \<Rightarrow> (toast_d s schedulingFailed, d)
       | Inr requests' \<Rightarrow>
           let d1 = d\<lparr>db_appointmentRequests := requests'\<rparr>;
               newAppointment =
                 \<lparr>apt_id = None,
                  appointmentDate = formatPPP e firestoreDate,
                  appointmentTime = slot,
                  assignedDoctor = displayNameOr (currentUser e) (js ''Doctor''),
                  apt_patientUsername = patientUsername request,
                  apt_diagnosis = Some (diagnosis request),
                  apt_medication = Some (trim (d_medication s)),
                  apt_scheduledDate = None\<rparr>
           in
           case addDoc e (db_appointments d1) newAppointment of
             Inl err \<Rightarrow> (toast_d s schedulingFailed, d1)
           | Inr appointments' \<Rightarrow>
               let d2 = d1\<lparr>db_appointments := appointments'\<rparr>;
                   s1 = toast_d s
                     \<lparr>title = js ''Success'',
                      description = js ''Appointment scheduled for '' @ formatPPP e firestoreDate
                                    @ js '' at '' @ slot,
                      destructive = False\<rparr>;
                   s2 = s1\<lparr>showCalendar := False, selectedTimeSlot := None, date := None,
                          selectedRequest := None, d_medication := []\<rparr>
               in
               case getDocs e (db_appointmentRequests d2) (\<lambda>r. status r = Pending) of
                 Inl err \<Rightarrow> (toast_d s2 schedulingFailed, d2)
               | Inr docs \<Rightarrow>
                   let requests = map (\<lambda>(k, data). data\<lparr>req_id := Some k\<rparr>) docs;
                       nonFlaggedRequests =
                         filter (\<lambda>request. \<not> truthy_bool (flaggedForReview request)) requests
                   in (s2\<lparr>d_appointmentRequests := nonFlaggedRequests\<rparr>, d2))"

text \<open>\<^verbatim>\<open>handleFlagForReview\<close>: set the flag, notify, refresh the queue.\<close>

definition handleFlagForReview ::
  "env \<Rightarrow> AppointmentRequest \<Rightarrow> doctor_state \<times> db \<Rightarrow> doctor_state \<times> db" where
  "handleFlagForReview e request = (\<lambda>(s, d).
     case updateDoc e (db_appointmentRequests d) (req_id request)
            (\<lambda>r. r\<lparr>flaggedForReview := Some True\<rparr>) of
       Inl err \<Rightarrow> (toast_d s (mk_toast ''Error'' ''Failed to flag for review.''), d)
     | Inr requests' \<Rightarrow>
         let d1 = d\<lparr>db_appointmentRequests := requests'\<rparr>;
             s1 = toast_d s
               \<lparr>title = js ''Flagged for Review'',
                description = js ''Patient '' @ patientUsername request
                              @ js '' has been flagged for review.'',
                destructive = False\<rparr>
         in
         case getDocs e (db_appointmentRequests d1) (\<lambda>r. status r = Pending) of
           Inl err \<Rightarrow> (toast_d s1 (mk_toast ''Error'' ''Failed to flag for review.''), d1)
         | Inr docs \<Rightarrow>
             let requests = map (\<lambda>(k, data). data\<lparr>req_id := Some k\<rparr>) docs;
                 nonFlaggedRequests =
                   filter (\<lambda>request. \<not> truthy_bool (flaggedForReview request)) requests
             in (s1\<lparr>d_appointmentRequests := nonFlaggedRequests\<rparr>, d1))"

text \<open>No element of the displayed pending queue carries \<^verbatim>\<open>flaggedForReview = true\<close>.\<close>

definition queue_unflagged :: "doctor_state \<Rightarrow> bool" where
  "queue_unflagged s = list_all (\<lambda>r. flaggedForReview r \<noteq> Some True) (d_appointmentRequests s)"

text \<open>
  The second effect: the appointments assigned to the signed-in doctor, sorted by a
  comparator that subtracts the instants \<^verbatim>\<open>new Date(date + ' ' + time).getTime()\<close>. The
  constructor's parser is the platform's (\<open>dateParse\<close>); \<open>None\<close> is an Invalid Date,
  whose \<^verbatim>\<open>getTime()\<close> is \<^verbatim>\<open>NaN\<close>, and a difference with \<^verbatim>\<open>NaN\<close> is \<^verbatim>\<open>NaN\<close>.
\<close>

definition appointmentInstant :: "env \<Rightarrow> Appointment \<Rightarrow> instant option" where
  "appointmentInstant e a = dateParse e (appointmentDate a @ js '' '' @ appointmentTime a)"

definition compareAppointments :: "env \<Rightarrow> Appointment \<Rightarrow> Appointment \<Rightarrow> int option" where
  "compareAppointments e a b =
     (case (appointmentInstant e a, appointmentInstant e b) of
        (Some dateA, Some dateB) \<Rightarrow> Some (dateA - dateB)
      | _ \<Rightarrow> None)"

text \<open>
  \<^verbatim>\<open>Array.prototype.sort(comparefn)\<close>. The language's SortCompare reads a \<^verbatim>\<open>NaN\<close> result
  as \<open>0\<close>; the sort is stable and puts \<open>x\<close> before \<open>y\<close> when the result is negative.
  A stable insertion sort is such an implementation.
\<close>

definition sortCompare :: "('a \<Rightarrow> 'a \<Rightarrow> int option) \<Rightarrow> 'a \<Rightarrow> 'a \<Rightarrow> int" where
  "sortCompare comparefn x y = (case comparefn x y of None \<Rightarrow> 0 | Some v \<Rightarrow> v)"

fun insertSorted :: "('a \<Rightarrow> 'a \<Rightarrow> int option) \<Rightarrow> 'a \<Rightarrow> 'a list \<Rightarrow> 'a list" where
  "insertSorted comparefn x [] = [x]"
| "insertSorted comparefn x (y # ys) =
     (if sortCompare comparefn x y \<le> 0 then x # y # ys
      else y # insertSorted comparefn x ys)"

fun array_sort :: "('a \<Rightarrow> 'a \<Rightarrow> int option) \<Rightarrow> 'a list \<Rightarrow> 'a list" where
  "array_sort comparefn [] = []"
| "array_sort comparefn (x # xs) = insertSorted comparefn x (array_sort comparefn xs)"

definition fetchAssignedAppointments :: "env \<Rightarrow> doctor_state \<times> db \<Rightarrow> doctor_state \<times> db" where
  "fetchAssignedAppointments e = (\<lambda>(s, d).
     let currentDoctor = displayNameOr (currentUser e) (js ''Doctor'') in
     case getDocs e (db_appointments d) (\<lambda>a. assignedDoctor a = currentDoctor) of
       Inl err \<Rightarrow> (toast_d s (mk_toast ''Error'' ''Failed to fetch assigned appointments.''), d)
     | Inr docs \<Rightarrow>
         let appointments = map (\<lambda>(k, data). data\<lparr>apt_id := Some k\<rparr>) docs
         in (s\<lparr>assignedAppointments := array_sort (compareAppointments e) appointments\<rparr>, d))"

section \<open>The patient's dashboard (\<^verbatim>\<open>PatientWelcomePage\<close>)\<close>

text \<open>
  The component's React state, the notifications it has shown, and the requests it has
  sent to the two remote endpoints (\<open>calls\<close>, oldest first), kept to state which steps
  of the pipeline ran.
\<close>

datatype call = TranscriptionCall blob | ChatCall jsstring

record medical_report =
  transcript :: "jsstring option"
  report_diagnosis :: "jsstring option"

record patient_state =
  isRecording :: bool
  audioData :: "blob option"
  isDialogOpen :: bool
  isProcessing :: bool
  reportReady :: bool
  medicalReport :: medical_report
  p_appointmentRequests :: "AppointmentRequest list"
  p_toasts :: "toast list"
  calls :: "call list"

definition patient_init :: patient_state where
  "patient_init =
     \<lparr>isRecording = False, audioData = None, isDialogOpen = False, isProcessing = False,
      reportReady = False, medicalReport = \<lparr>transcript = None, report_diagnosis = None\<rparr>,
      p_appointmentRequests = [], p_toasts = [], calls = []\<rparr>"

definition toast_p :: "patient_state \<Rightarrow> toast \<Rightarrow> patient_state" where
  "toast_p s t = s\<lparr>p_toasts := p_toasts s @ [t]\<rparr>"

text \<open>
  \<^verbatim>\<open>transcribeAudio\<close> and \<^verbatim>\<open>getDiagnosisFromTranscript\<close>: one request each; a failure is
  rethrown as a new \<^verbatim>\<open>Error\<close> with a prefixed message.
\<close>

definition transcribeAudio :: "env \<Rightarrow> blob \<Rightarrow> patient_state \<Rightarrow> (error + jsstring) \<times> patient_state" where
  "transcribeAudio e audioBlob s =
     (let s1 = s\<lparr>calls := calls s @ [TranscriptionCall audioBlob]\<rparr> in
      case transcriptionEndpoint e audioBlob of
        Inl err \<Rightarrow> (Inl (Error (js ''Transcription failed: '' @ message err)), s1)
      | Inr text \<Rightarrow> (Inr text, s1))"

definition getDiagnosisFromTranscript ::
  "env \<Rightarrow> jsstring \<Rightarrow> patient_state \<Rightarrow> (error + jsstring) \<times> patient_state" where
  "getDiagnosisFromTranscript e tr s =
     (let s1 = s\<lparr>calls := calls s @ [ChatCall tr]\<rparr> in
      case chatEndpoint e tr of
        Inl err \<Rightarrow> (Inl (Error (js ''Diagnosis failed: '' @ message err)), s1)
      | Inr content \<Rightarrow> (Inr (trim content), s1))"

text \<open>The body of the \<^verbatim>\<open>try\<close> of \<^verbatim>\<open>processAudio\<close>: \<open>Inl\<close> is a throw, with the state it left.\<close>

definition processAudio_try :: "env \<Rightarrow> blob \<Rightarrow> patient_state \<Rightarrow> (error + unit) \<times> patient_state" where
  "processAudio_try e blob s =
     (let s1 = toast_p s (mk_toast ''Processing'' ''Transcribing your recording...'') in
      case transcribeAudio e blob s1 of
        (Inl err, s2) \<Rightarrow> (Inl err, s2)
      | (Inr tr, s2) \<Rightarrow>
          let s3 = toast_p s2 (mk_toast ''Processing'' ''Generating diagnosis...'') in
          case getDiagnosisFromTranscript e tr s3 of
            (Inl err, s4) \<Rightarrow> (Inl err, s4)
          | (Inr dg, s4) \<Rightarrow>
              let s5 = s4\<lparr>medicalReport := \<lparr>transcript = Some tr, report_diagnosis = Some dg\<rparr>,
                          reportReady := True\<rparr>
              in (Inr (), toast_p s5
                    (mk_toast ''Complete'' ''Your recording has been processed successfully.'')))"

definition processingFailed :: toast where
  "processingFailed =
     \<lparr>title = js ''Error'',
      description = js ''Failed to process your recording. Please try again.'',
      destructive = True\<rparr>"

text \<open>
  \<^verbatim>\<open>processAudio\<close>: nothing without a recording; otherwise the \<^verbatim>\<open>try\<close>, a \<^verbatim>\<open>catch\<close>
  that notifies, and a \<^verbatim>\<open>finally\<close> that ends the loading state. The first component
  of the result is \<open>Inl\<close> when the function itself throws.
\<close>

definition processAudio :: "env \<Rightarrow> patient_state \<Rightarrow> (error + unit) \<times> patient_state" where
  "processAudio e s =
     (case audioData s of
        None \<Rightarrow> (Inr (), s)
      | Some blob \<Rightarrow>
          let (r, s1) = processAudio_try e blob (s\<lparr>isProcessing := True\<rparr>);
              (r', s2) = (case r of
                            Inl err \<Rightarrow> (Inr (), toast_p s1 processingFailed)
                          | Inr u \<Rightarrow> (Inr (), s1))
          in (r', s2\<lparr>isProcessing := False\<rparr>))"

text \<open>\<^verbatim>\<open>handleContinue\<close>: persists the report as a new request.\<close>

definition handleContinue :: "env \<Rightarrow> patient_state \<times> db \<Rightarrow> patient_state \<times> db" where
  "handleContinue e = (\<lambda>(s, d).
     if \<not> truthy_str (transcript (medicalReport s)) \<or>
        \<not> truthy_str (report_diagnosis (medicalReport s))
     then (toast_p s (mk_toast ''Error''
             ''Please complete the voice recording and processing first.''), d)
     else
       case currentUser e of
         None \<Rightarrow> (toast_p s (mk_toast ''Error'' ''Please sign in to submit your request.''), d)
       | Some usr \<Rightarrow>
           let appointmentRequest =
                 \<lparr>req_id = None,
                  patientId = uid usr,
                  patientUsername = displayNameOr (Some usr) (js ''Anonymous''),
                  symptoms = the (transcript (medicalReport s)),
                  diagnosis = the (report_diagnosis (medicalReport s)),
                  medication = None,
                  status = Pending,
                  createdAt = now e,
                  scheduledDate = None,
                  scheduledTime = None,
                  flaggedForReview = None,
                  resubmissionComment = None\<rparr>
           in
           case addDoc e (db_appointmentRequests d) appointmentRequest of
             Inl err \<Rightarrow> (toast_p s (mk_toast ''Error''
                           ''Failed to submit request. Please try again.''), d)
           | Inr requests' \<Rightarrow>
               let s1 = toast_p s (mk_toast ''Success''
                          ''Your symptoms and diagnosis have been recorded. A doctor will review and schedule an appointment.'')
               in (s1\<lparr>medicalReport := \<lparr>transcript = None, report_diagnosis = None\<rparr>,
                      isDialogOpen := False, reportReady := False\<rparr>,
                   d\<lparr>db_appointmentRequests := requests'\<rparr>))"

text \<open>The patient's own requests; a failure is only logged to the console.\<close>

definition fetchAppointmentRequests_patient :: "env \<Rightarrow> patient_state \<times> db \<Rightarrow> patient_state \<times> db" where
  "fetchAppointmentRequests_patient e = (\<lambda>(s, d).
     case currentUser e of
       None \<Rightarrow> (s, d)
     | Some usr \<Rightarrow>
         (case getDocs e (db_appointmentRequests d) (\<lambda>r. patientId r = uid usr) of
            Inl err \<Rightarrow> (s, d)
          | Inr docs \<Rightarrow>
              let requests = map (\<lambda>(k, data). data\<lparr>req_id := Some k, createdAt := createdAt data,
                                     scheduledDate := scheduledDate data\<rparr>) docs
              in (s\<lparr>p_appointmentRequests := requests\<rparr>, d)))"

subsection \<open>\<^verbatim>\<open>FlaggedReviewResubmission\<close>\<close>

text \<open>The component's property \<open>request\<close> and its state.\<close>

record resubmission_state =
  request :: AppointmentRequest
  rs_symptoms :: jsstring
  comment :: jsstring
  loading :: bool

definition resubmission_init :: "AppointmentRequest \<Rightarrow> resubmission_state" where
  "resubmission_init r =
     \<lparr>request = r, rs_symptoms = symptoms r, comment = [], loading = False\<rparr>"

text \<open>
  \<^verbatim>\<open>handleResubmit\<close>: one \<^verbatim>\<open>updateDoc\<close> of three fields, then the parent's refresh
  (\<^verbatim>\<open>onResubmitted\<close> is the patient's \<^verbatim>\<open>fetchAppointmentRequests\<close>).
\<close>

definition handleResubmit ::
  "env \<Rightarrow> resubmission_state \<times> patient_state \<times> db \<Rightarrow> resubmission_state \<times> patient_state \<times> db" where
  "handleResubmit e = (\<lambda>(rs, s, d).
     let rs1 = rs\<lparr>loading := True\<rparr> in
     case updateDoc e (db_appointmentRequests d) (req_id (request rs))
            (\<lambda>r. r\<lparr>symptoms := rs_symptoms rs, flaggedForReview := Some False,
                    resubmissionComment := Some (comment rs)\<rparr>) of
       Inl err \<Rightarrow>
         (rs1\<lparr>loading := False\<rparr>,
          toast_p s (mk_toast ''Error'' ''Failed to resubmit symptoms.''), d)
     | Inr requests' \<Rightarrow>
         let d1 = d\<lparr>db_appointmentRequests := requests'\<rparr>;
             s1 = toast_p s (mk_toast ''Resubmitted''
                    ''Your symptoms have been resubmitted for review.'');
             (s2, d2) = fetchAppointmentRequests_patient e (s1, d1)
         in (rs1\<lparr>loading := False\<rparr>, s2, d2))"

section \<open>Sign-in and sign-up (\<^verbatim>\<open>AuthForm\<close>)\<close>

record form_values =
  fv_email :: jsstring
  fv_password :: jsstring
  fv_username :: "jsstring option"
  fv_userType :: user_type

definition authenticationFailed :: "error \<Rightarrow> toast" where
  "authenticationFailed err =
     \<lparr>title = js ''Authentication Failed'',
      description = (if message err \<noteq> [] then message err
                     else js ''An error occurred during authentication.''),
      destructive = False\<rparr>"

text \<open>\<^verbatim>\<open>onSubmit\<close>: the only writer of the \<^verbatim>\<open>users\<close> collection.\<close>

definition onSubmit :: "env \<Rightarrow> bool \<Rightarrow> form_values \<Rightarrow> db \<Rightarrow> toast list \<times> db" where
  "onSubmit e isLogin values d =
     (if \<not> firebaseConfigured e
      then ([authenticationFailed (Error (js
              ''Firebase configuration is not properly set in the environment variables.''))], d)
      else if isLogin then
        (case signInWithEmailAndPassword e (fv_email values) (fv_password values) of
           Inl err \<Rightarrow> ([authenticationFailed err], d)
         | Inr u \<Rightarrow> ([mk_toast ''Login Successful'' ''Welcome back!''], d))
      else
        (case createUserWithEmailAndPassword e (fv_email values) (fv_password values) of
           Inl err \<Rightarrow> ([authenticationFailed err], d)
         | Inr newUid \<Rightarrow>
             if truthy_str (fv_username values) \<and> updateProfile_fails e
             then ([authenticationFailed (Error (js ''unavailable''))], d)
             else
               (case setDoc e (db_users d) newUid
                       \<lparr>username = (if truthy_str (fv_username values) then fv_username values
                                    else None),
                        email = fv_email values,
                        userType = fv_userType values\<rparr> of
                  Inl err \<Rightarrow> ([authenticationFailed err], d)
                | Inr users' \<Rightarrow>
                    ([mk_toast ''Signup Successful'' ''Please check your email for verification.''],
                     d\<lparr>db_users := users'\<rparr>))))"

section \<open>The operations of the application on the document store\<close>

text \<open>
  Every handler of the repository that reaches the store, with the platform and the
  client state it runs in. A client may hold any state, also a stale one.
\<close>

datatype event =
    OnSubmit env bool form_values
  | ProcessAudio env patient_state
  | HandleContinue env patient_state
  | FetchAppointmentRequestsPatient env patient_state
  | HandleResubmit env resubmission_state patient_state
  | FetchAppointmentRequestsDoctor env doctor_state
  | FetchAssignedAppointments env doctor_state
  | ConfirmScheduling env doctor_state
  | HandleFlagForReview env AppointmentRequest doctor_state

fun apply_event :: "event \<Rightarrow> db \<Rightarrow> db" where
  "apply_event (OnSubmit e isLogin values) d = snd (onSubmit e isLogin values d)"
| "apply_event (ProcessAudio e s) d = d"
| "apply_event (HandleContinue e s) d = snd (handleContinue e (s, d))"
| "apply_event (FetchAppointmentRequestsPatient e s) d = snd (fetchAppointmentRequests_patient e (s, d))"
| "apply_event (HandleResubmit e rs s) d = snd (snd (handleResubmit e (rs, s, d)))"
| "apply_event (FetchAppointmentRequestsDoctor e s) d = snd (fetchAppointmentRequests_doctor e (s, d))"
| "apply_event (FetchAssignedAppointments e s) d = snd (fetchAssignedAppointments e (s, d))"
| "apply_event (ConfirmScheduling e s) d = snd (confirmScheduling e (s, d))"
| "apply_event (HandleFlagForReview e r s) d = snd (handleFlagForReview e r (s, d))"

definition run :: "event list \<Rightarrow> db \<Rightarrow> db" where
  "run es d = fold apply_event es d"

section \<open>Notions used by the properties\<close>

text \<open>The identifiers of the requests whose stored status is \<^verbatim>\<open>completed\<close>.\<close>

definition completed_ids :: "db \<Rightarrow> docid set" where
  "completed_ids d =
     set (map fst (filter (\<lambda>(k, r). status r = Completed) (db_appointmentRequests d)))"

fun is_ConfirmScheduling :: "event \<Rightarrow> bool" where
  "is_ConfirmScheduling (ConfirmScheduling e s) = True"
| "is_ConfirmScheduling _ = False"

text \<open>The voice pipeline fails when one of its two remote steps fails.\<close>

definition pipeline_fails :: "env \<Rightarrow> blob \<Rightarrow> bool" where
  "pipeline_fails e blob =
     (case transcriptionEndpoint e blob of
        Inl err \<Rightarrow> True
      | Inr tr \<Rightarrow> (case chatEndpoint e tr of Inl err \<Rightarrow> True | Inr content \<Rightarrow> False))"

text \<open>The store with other values in the \<open>status\<close> and \<open>flaggedForReview\<close> of request \<open>k\<close>.\<close>

definition with_stored :: "docid \<Rightarrow> status \<Rightarrow> bool option \<Rightarrow> db \<Rightarrow> db" where
  "with_stored k st fl d =
     d\<lparr>db_appointmentRequests :=
         map (\<lambda>(k', r). if k' = k then (k', r\<lparr>status := st, flaggedForReview := fl\<rparr>) else (k', r))
           (db_appointmentRequests d)\<rparr>"

subsection \<open>Concrete inputs\<close>

definition example_env :: env where
  "example_env =
     \<lparr>currentUser = Some \<lparr>uid = js ''d1'', displayName = Some (js ''Rao'')\<rparr>,
      now = 1000,
      formatPPP = (\<lambda>t. js ''April 30th, 2025''),
      dateParse = (\<lambda>s. None),
      transcriptionEndpoint = (\<lambda>b. Inr (js ''cough'')),
      chatEndpoint = (\<lambda>t. Inr (js ''cold '')),
      getDocs_fails = False, addDoc_fails = False, updateDoc_fails = False,
      setDoc_fails = False, firebaseConfigured = True,
      signInWithEmailAndPassword = (\<lambda>a b. Inr ()),
      createUserWithEmailAndPassword = (\<lambda>a b. Inr (js ''u9'')),
      updateProfile_fails = False\<rparr>"

definition example_request :: "string \<Rightarrow> bool option \<Rightarrow> status \<Rightarrow> AppointmentRequest" where
  "example_request name fl st =
     \<lparr>req_id = None, patientId = js ''p1'', patientUsername = js name, symptoms = js ''cough'',
      diagnosis = js ''cold'', medication = None, status = st, createdAt = 500,
      scheduledDate = None, scheduledTime = None, flaggedForReview = fl,
      resubmissionComment = None\<rparr>"

definition example_db :: db where
  "example_db =
     \<lparr>db_appointmentRequests =
        [(1, example_request ''ann'' None Pending),
         (2, example_request ''bob'' (Some True) Pending),
         (3, example_request ''cy'' (Some False) Pending)],
      db_appointments = [], db_users = []\<rparr>"

text \<open>The doctor has picked request 1, a day, a slot, and typed a medication with blanks around it.\<close>

definition example_doctor_state :: doctor_state where
  "example_doctor_state =
     \<lparr>d_appointmentRequests = [], assignedAppointments = [],
      selectedRequest = Some ((example_request ''ann'' None Pending)\<lparr>req_id := Some 1\<rparr>),
      showCalendar = True, date = Some 2000, selectedTimeSlot = Some (js ''9:00 AM''),
      d_medication = js '' aspirin '', d_toasts = []\<rparr>"

text \<open>The patient of the flagged request 2 resubmits with new symptoms and a comment.\<close>

definition example_resubmission :: resubmission_state where
  "example_resubmission =
     \<lparr>request = (example_request ''bob'' (Some True) Pending)\<lparr>req_id := Some 2\<rparr>,
      rs_symptoms = js ''fever'', comment = js ''since Monday'', loading = False\<rparr>"

text \<open>A recording was made; then either remote step fails. A report is ready.\<close>

definition example_failing_env :: env where
  "example_failing_env = example_env\<lparr>transcriptionEndpoint := (\<lambda>b. Inl (Error (js ''timeout'')))\<rparr>"

definition example_failing_chat_env :: env where
  "example_failing_chat_env = example_env\<lparr>chatEndpoint := (\<lambda>t. Inl (Error (js ''quota'')))\<rparr>"

definition example_recorded :: patient_state where
  "example_recorded = patient_init\<lparr>audioData := Some [1, 2, 3]\<rparr>"

definition example_reported :: patient_state where
  "example_reported =
     patient_init\<lparr>medicalReport := \<lparr>transcript = Some (js ''cough''), report_diagnosis = Some (js ''cold'')\<rparr>,
                  reportReady := True\<rparr>"

text \<open>
  A run of the application: a submission, a flagging, a resubmission, a scheduling and a
  fetch of the doctor's appointments.
\<close>

definition example_events :: "event list" where
  "example_events =
     [HandleContinue example_env example_reported,
      HandleFlagForReview example_env
        ((example_request ''cy'' (Some False) Pending)\<lparr>req_id := Some 3\<rparr>) example_doctor_state,
      HandleResubmit example_env example_resubmission patient_init,
      ConfirmScheduling example_env example_doctor_state,
      FetchAssignedAppointments example_env example_doctor_state]"

text \<open>
  A date parser that reads the two strings below and rejects every other one, among them
  the dates with an ordinal suffix (\<^verbatim>\<open>April 30th, 2025\<close>) that \<open>formatPPP\<close> produces; and
  two appointments of the same doctor, fetched with the later day first.
\<close>

definition example_dateParse :: "jsstring \<Rightarrow> instant option" where
  "example_dateParse s =
     (if s = js ''April 29, 2025 9:00 AM'' then Some 1745917200000
      else if s = js ''April 30, 2025 9:00 AM'' then Some 1746003600000
      else None)"

definition example_appointment :: "string \<Rightarrow> string \<Rightarrow> Appointment" where
  "example_appointment day slot =
     \<lparr>apt_id = None, appointmentDate = js day, appointmentTime = js slot,
      assignedDoctor = js ''Rao'', apt_patientUsername = js ''ann'',
      apt_diagnosis = Some (js ''cold''), apt_medication = Some (js ''aspirin''),
      apt_scheduledDate = None\<rparr>"

definition example_appointments_db :: "string \<Rightarrow> string \<Rightarrow> db" where
  "example_appointments_db day1 day2 =
     \<lparr>db_appointmentRequests = [],
      db_appointments = [(1, example_appointment day1 ''9:00 AM''),
                         (2, example_appointment day2 ''9:00 AM'')],
      db_users = []\<rparr>"

definition example_parsing_env :: env where
  "example_parsing_env = example_env\<lparr>dateParse := example_dateParse\<rparr>"

section \<open>Properties\<close>

subsection \<open>Auxiliary facts\<close>

lemma filter_unflagged:
  "list_all (\<lambda>r. flaggedForReview r \<noteq> Some True)
     (filter (\<lambda>request. \<not> truthy_bool (flaggedForReview request)) xs)"
  by (induction xs) auto

lemma toast_d_queue: "d_appointmentRequests (toast_d s t) = d_appointmentRequests s"
  by (simp add: toast_d_def)

lemma fetch_unflagged:
  "queue_unflagged s \<Longrightarrow> queue_unflagged (fst (fetchAppointmentRequests_doctor e (s, d)))"
  by (simp add: fetchAppointmentRequests_doctor_def queue_unflagged_def toast_d_queue
      filter_unflagged Let_def split: sum.splits)

lemma confirm_unflagged:
  "queue_unflagged s \<Longrightarrow> queue_unflagged (fst (confirmScheduling e (s, d)))"
  by (simp add: confirmScheduling_def queue_unflagged_def toast_d_queue filter_unflagged
      Let_def split: sum.splits)

lemma flag_unflagged:
  "queue_unflagged s \<Longrightarrow> queue_unflagged (fst (handleFlagForReview e r (s, d)))"
  by (simp add: handleFlagForReview_def queue_unflagged_def toast_d_queue filter_unflagged
      Let_def split: sum.splits)

lemma dropWhile_all_Nil: "(\<forall>x \<in> set (dropWhile P xs). P x) \<longleftrightarrow> dropWhile P xs = []"
proof (cases "dropWhile P xs")
  case Nil
  show ?thesis unfolding Nil by simp
next
  case (Cons a as)
  then have "\<not> P a" using hd_dropWhile[of P xs] by auto
  with Cons show ?thesis by auto
qed

text \<open>\<open>trim\<close> leaves nothing exactly of the strings made of white space only.\<close>

lemma trim_Nil_iff: "trim m = [] \<longleftrightarrow> list_all isWhiteSpace m"
proof -
  have "trim m = [] \<longleftrightarrow> dropWhile isWhiteSpace (rev (dropWhile isWhiteSpace m)) = []"
    by (simp add: trim_def)
  also have "\<dots> \<longleftrightarrow> (\<forall>x \<in> set (dropWhile isWhiteSpace m). isWhiteSpace x)"
    unfolding dropWhile_eq_Nil_conv by simp
  also have "\<dots> \<longleftrightarrow> dropWhile isWhiteSpace m = []"
    by (rule dropWhile_all_Nil)
  also have "\<dots> \<longleftrightarrow> list_all isWhiteSpace m"
    unfolding dropWhile_eq_Nil_conv by (simp add: list_all_iff)
  finally show ?thesis .
qed

lemma autoId_fresh_aux:
  fixes c :: "'a collection"
  shows "k \<in> set (map fst c) \<Longrightarrow> k \<le> foldr max (map fst c) 0"
proof (induction c)
  case Nil
  then show ?case by simp
next
  case (Cons a c)
  show ?case
  proof (cases "k = fst a")
    case True
    then show ?thesis by simp
  next
    case False
    with Cons.prems have "k \<in> set (map fst c)" by auto
    then have "k \<le> foldr max (map fst c) 0" by (rule Cons.IH)
    then show ?thesis by (simp add: le_max_iff_disj)
  qed
qed

text \<open>The identifier \<open>addDoc\<close> picks is not in use.\<close>

lemma autoId_fresh: "autoId c \<notin> set (map fst c)"
  using autoId_fresh_aux[of "autoId c" c] by (auto simp: autoId_def)

lemmas ex_defs = example_env_def example_db_def example_request_def example_doctor_state_def
  doctor_init_def toast_d_def mk_toast_def js_def

subsection \<open>The doctor's pending queue\<close>

text \<open>
  Claim C1. The pending queue the doctor sees never holds a request whose
  \<^verbatim>\<open>flaggedForReview\<close> is \<^verbatim>\<open>true\<close>: the queue is empty when the component starts, and each
  of the three operations that set it (the initial fetch, the refresh after scheduling,
  the refresh after flagging) either leaves it as it was or replaces it by its query
  result with the flagged requests filtered out.
\<close>

theorem pending_queue_excludes_flagged:
  "queue_unflagged (doctor_init e) \<and>
   (queue_unflagged s \<longrightarrow>
      queue_unflagged (fst (fetchAppointmentRequests_doctor e (s, d))) \<and>
      queue_unflagged (fst (confirmScheduling e (s, d))) \<and>
      queue_unflagged (fst (handleFlagForReview e r (s, d))))"
  using fetch_unflagged confirm_unflagged flag_unflagged
  by (simp add: queue_unflagged_def doctor_init_def)

theorem pending_queue_excludes_flagged_witness:
  "queue_unflagged example_doctor_state \<and>
   map flaggedForReview (map snd (db_appointmentRequests example_db)) = [None, Some True, Some False] \<and>
   map req_id (d_appointmentRequests (fst (fetchAppointmentRequests_doctor example_env
      (example_doctor_state, example_db)))) = [Some 1, Some 3] \<and>
   map req_id (d_appointmentRequests (fst (confirmScheduling example_env
      (example_doctor_state, example_db)))) = [Some 3] \<and>
   map req_id (d_appointmentRequests (fst (handleFlagForReview example_env
      ((example_request ''cy'' (Some False) Pending)\<lparr>req_id := Some 3\<rparr>)
      (example_doctor_state, example_db)))) = [Some 1] \<and>
   queue_unflagged (fst (fetchAppointmentRequests_doctor example_env (example_doctor_state, example_db))) \<and>
   queue_unflagged (fst (confirmScheduling example_env (example_doctor_state, example_db))) \<and>
   queue_unflagged (fst (handleFlagForReview example_env
      ((example_request ''cy'' (Some False) Pending)\<lparr>req_id := Some 3\<rparr>)
      (example_doctor_state, example_db)))"
proof -
  have q: "queue_unflagged example_doctor_state"
    by (simp add: queue_unflagged_def example_doctor_state_def)
  have 0: "map flaggedForReview (map snd (db_appointmentRequests example_db)) = [None, Some True, Some False]"
    by (simp add: example_db_def example_request_def)
  have 1: "map req_id (d_appointmentRequests (fst (fetchAppointmentRequests_doctor example_env
      (example_doctor_state, example_db)))) = [Some 1, Some 3]"
    by (simp add: fetchAppointmentRequests_doctor_def getDocs_def ex_defs)
  have 2: "map req_id (d_appointmentRequests (fst (confirmScheduling example_env
      (example_doctor_state, example_db)))) = [Some 3]"
    by (simp add: confirmScheduling_def updateDoc_def addDoc_def getDocs_def trim_def isWhiteSpace_def ex_defs Let_def)
  have 3: "map req_id (d_appointmentRequests (fst (handleFlagForReview example_env
      ((example_request ''cy'' (Some False) Pending)\<lparr>req_id := Some 3\<rparr>)
      (example_doctor_state, example_db)))) = [Some 1]"
    by (simp add: handleFlagForReview_def updateDoc_def getDocs_def ex_defs Let_def)
  from q 0 1 2 3 pending_queue_excludes_flagged[of example_env example_doctor_state example_db
      "(example_request ''cy'' (Some False) Pending)\<lparr>req_id := Some 3\<rparr>"]
  show ?thesis by simp
qed

subsection \<open>Scheduling\<close>

text \<open>
  Claim C9. When no request is selected, or no date or no time slot is chosen, or the
  medication text is empty or consists of white space only, \<^verbatim>\<open>confirmScheduling\<close> writes
  nothing: the store is unchanged (no request updated, no appointment created), and the
  only change of the component's state is one notification titled \<^verbatim>\<open>Error\<close>.
\<close>

theorem confirmScheduling_guard_no_write:
  assumes "selectedRequest s = None \<or> date s = None \<or> selectedTimeSlot s = None \<or>
           list_all isWhiteSpace (d_medication s)"
  shows "\<exists>t. title t = js ''Error'' \<and>
             confirmScheduling e (s, d) = (s\<lparr>d_toasts := d_toasts s @ [t]\<rparr>, d)"
proof (cases "selectedRequest s = None \<or> date s = None \<or> \<not> truthy_str (selectedTimeSlot s)")
  case True
  then show ?thesis
    by (intro exI[of _ "mk_toast ''Error'' ''Please select a date and time slot.''"])
       (simp add: confirmScheduling_def toast_d_def mk_toast_def)
next
  case False
  with assms have "trim (d_medication s) = []"
    by (auto simp: trim_Nil_iff)
  with False show ?thesis
    by (intro exI[of _ "mk_toast ''Error'' ''Please enter basic medication details.''"])
       (auto simp add: confirmScheduling_def toast_d_def mk_toast_def)
qed

theorem confirmScheduling_guard_no_write_witness:
  "list_all isWhiteSpace (d_medication (example_doctor_state\<lparr>d_medication := js ''  ''\<rparr>)) \<and>
   (\<exists>t. title t = js ''Error'' \<and>
      confirmScheduling example_env (example_doctor_state\<lparr>d_medication := js ''  ''\<rparr>, example_db) =
        (example_doctor_state\<lparr>d_medication := js ''  '', d_toasts := [t]\<rparr>, example_db))"
proof -
  have h: "list_all isWhiteSpace (d_medication (example_doctor_state\<lparr>d_medication := js ''  ''\<rparr>))"
    by (simp add: js_def isWhiteSpace_def)
  then have "selectedRequest (example_doctor_state\<lparr>d_medication := js ''  ''\<rparr>) = None \<or>
     date (example_doctor_state\<lparr>d_medication := js ''  ''\<rparr>) = None \<or>
     selectedTimeSlot (example_doctor_state\<lparr>d_medication := js ''  ''\<rparr>) = None \<or>
     list_all isWhiteSpace (d_medication (example_doctor_state\<lparr>d_medication := js ''  ''\<rparr>))"
    by blast
  from confirmScheduling_guard_no_write[OF this, of example_env example_db] h
  show ?thesis by (simp add: example_doctor_state_def)
qed

lemma keys_update:
  "map fst (map (\<lambda>(k', r). if k' = k then (k', f r) else (k', r)) c) = map fst c"
  by (induction c) auto

lemma confirmScheduling_runs:
  assumes "\<not> (selectedRequest s = None \<or> date s = None \<or> \<not> truthy_str (selectedTimeSlot s) \<or>
              trim (d_medication s) = [])"
  obtains rq day slot where "selectedRequest s = Some rq" "date s = Some day"
    "selectedTimeSlot s = Some slot" "slot \<noteq> []" "trim (d_medication s) \<noteq> []"
proof -
  from assms obtain rq day where 1: "selectedRequest s = Some rq" "date s = Some day" by auto
  from assms have "truthy_str (selectedTimeSlot s)" by simp
  then obtain slot where 2: "selectedTimeSlot s = Some slot" "slot \<noteq> []"
    by (cases "selectedTimeSlot s") simp_all
  from assms have "trim (d_medication s) \<noteq> []" by simp
  with 1 2 that show thesis by blast
qed

lemma confirmScheduling_db:
  assumes "selectedRequest s = Some rq" "date s = Some day"
    "selectedTimeSlot s = Some slot" "slot \<noteq> []" "trim (d_medication s) \<noteq> []"
  shows "snd (confirmScheduling e (s, d)) =
     (case updateDoc e (db_appointmentRequests d) (req_id rq)
             (\<lambda>r. r\<lparr>status := Scheduled, scheduledDate := Some day,
                     scheduledTime := Some slot,
                     medication := Some (trim (d_medication s))\<rparr>) of
        Inl err \<Rightarrow> d
      | Inr c \<Rightarrow>
          (case addDoc e (db_appointments d)
                  \<lparr>apt_id = None, appointmentDate = formatPPP e day, appointmentTime = slot,
                   assignedDoctor = displayNameOr (currentUser e) (js ''Doctor''),
                   apt_patientUsername = patientUsername rq,
                   apt_diagnosis = Some (diagnosis rq),
                   apt_medication = Some (trim (d_medication s)),
                   apt_scheduledDate = None\<rparr> of
             Inl err \<Rightarrow> d\<lparr>db_appointmentRequests := c\<rparr>
           | Inr a \<Rightarrow> d\<lparr>db_appointmentRequests := c, db_appointments := a\<rparr>))"
  using assms by (simp add: confirmScheduling_def Let_def split: sum.splits)

lemma confirmScheduling_writes:
  assumes "selectedRequest s = Some rq" and "date s = Some day"
    and "selectedTimeSlot s = Some slot" and "slot \<noteq> []"
    and "trim (d_medication s) \<noteq> []"
    and "req_id rq = Some k" and "k \<in> set (map fst (db_appointmentRequests d))"
    and "\<not> updateDoc_fails e" and "\<not> addDoc_fails e"
  shows "snd (confirmScheduling e (s, d)) =
           d\<lparr>db_appointmentRequests :=
                map (\<lambda>(k', r). if k' = k
                       then (k', r\<lparr>status := Scheduled, scheduledDate := Some day,
                                   scheduledTime := Some slot,
                                   medication := Some (trim (d_medication s))\<rparr>)
                       else (k', r)) (db_appointmentRequests d),
              db_appointments :=
                db_appointments d @
                  [(autoId (db_appointments d),
                    \<lparr>apt_id = None, appointmentDate = formatPPP e day, appointmentTime = slot,
                     assignedDoctor = displayNameOr (currentUser e) (js ''Doctor''),
                     apt_patientUsername = patientUsername rq,
                     apt_diagnosis = Some (diagnosis rq),
                     apt_medication = Some (trim (d_medication s)),
                     apt_scheduledDate = None\<rparr>)]\<rparr> \<and>
         autoId (db_appointments d) \<notin> set (map fst (db_appointments d))"
proof
  show "autoId (db_appointments d) \<notin> set (map fst (db_appointments d))"
    by (rule autoId_fresh)
  show "snd (confirmScheduling e (s, d)) =
           d\<lparr>db_appointmentRequests :=
                map (\<lambda>(k', r). if k' = k
                       then (k', r\<lparr>status := Scheduled, scheduledDate := Some day,
                                   scheduledTime := Some slot,
                                   medication := Some (trim (d_medication s))\<rparr>)
                       else (k', r)) (db_appointmentRequests d),
              db_appointments :=
                db_appointments d @
                  [(autoId (db_appointments d),
                    \<lparr>apt_id = None, appointmentDate = formatPPP e day, appointmentTime = slot,
                     assignedDoctor = displayNameOr (currentUser e) (js ''Doctor''),
                     apt_patientUsername = patientUsername rq,
                     apt_diagnosis = Some (diagnosis rq),
                     apt_medication = Some (trim (d_medication s)),
                     apt_scheduledDate = None\<rparr>)]\<rparr>"
    using assms(6-9)
    by (simp add: confirmScheduling_db[OF assms(1-5)] updateDoc_def addDoc_def)
qed

lemma pending_after_update:
  assumes "\<And>r. status (f r) = Scheduled"
  shows "filter (\<lambda>(k', r). status r = Pending)
          (map (\<lambda>(k', r). if k' = k then (k', f r) else (k', r))
             (map (\<lambda>(k', r). if k' = k then (k', g r) else (k', r)) c)) =
         filter (\<lambda>(k', r). status r = Pending)
          (map (\<lambda>(k', r). if k' = k then (k', f r) else (k', r)) c)"
  by (induction c) (auto simp: assms split: if_splits)

lemma confirmScheduling_fst:
  assumes "selectedRequest s = Some rq" "date s = Some day"
    "selectedTimeSlot s = Some slot" "slot \<noteq> []" "trim (d_medication s) \<noteq> []"
    "req_id rq = Some k" "k \<in> set (map fst (db_appointmentRequests d))"
    "\<not> updateDoc_fails e" "\<not> addDoc_fails e"
  shows "fst (confirmScheduling e (s, d)) =
     (let s2 = (toast_d s \<lparr>title = js ''Success'',
                      description = js ''Appointment scheduled for '' @ formatPPP e day
                                    @ js '' at '' @ slot,
                      destructive = False\<rparr>)
               \<lparr>showCalendar := False, selectedTimeSlot := None, date := None,
                          selectedRequest := None, d_medication := []\<rparr>
      in if getDocs_fails e then toast_d s2 schedulingFailed
         else s2\<lparr>d_appointmentRequests :=
                 filter (\<lambda>request. \<not> truthy_bool (flaggedForReview request))
                   (map (\<lambda>(k, data). data\<lparr>req_id := Some k\<rparr>)
                      (filter (\<lambda>(k', r). status r = Pending)
                         (map (\<lambda>(k', r). if k' = k
                       then (k', r\<lparr>status := Scheduled, scheduledDate := Some day,
                                   scheduledTime := Some slot,
                                   medication := Some (trim (d_medication s))\<rparr>)
                       else (k', r)) (db_appointmentRequests d))))\<rparr>)"
  using assms
  by (simp add: confirmScheduling_def updateDoc_def addDoc_def getDocs_def Let_def)

lemma example_hyps:
  "selectedRequest example_doctor_state = Some ((example_request ''ann'' None Pending)\<lparr>req_id := Some 1\<rparr>)"
  "date example_doctor_state = Some 2000"
  "selectedTimeSlot example_doctor_state = Some (js ''9:00 AM'')"
  "js ''9:00 AM'' \<noteq> []"
  "trim (d_medication example_doctor_state) \<noteq> []"
  "req_id ((example_request ''ann'' None Pending)\<lparr>req_id := Some 1\<rparr>) = Some 1"
  "1 \<in> set (map fst (db_appointmentRequests example_db))"
  "\<not> updateDoc_fails example_env"
  "\<not> addDoc_fails example_env"
  by (simp_all add: ex_defs trim_def isWhiteSpace_def)

text \<open>
  Claim C2, as amended. When a request is selected, a date and a non-empty time slot are
  chosen, the medication text is not blank, the selected request's document exists and
  the two writes succeed, \<^verbatim>\<open>confirmScheduling\<close> leaves the store as follows. The
  selected request's document has \<open>status = Scheduled\<close>, the chosen date and slot, and the
  medication text with the white space around it removed; its other fields and all other
  requests are untouched. The appointments are the old ones followed by exactly one new
  record, under an identifier not in use, whose patient name and diagnosis are those of
  the selected request, whose date is the chosen date formatted, whose time is the slot
  and whose medication is the trimmed text.
\<close>

theorem confirmScheduling_schedules_creates_one:
  assumes "selectedRequest s = Some rq" and "date s = Some day"
    and "selectedTimeSlot s = Some slot" and "slot \<noteq> []"
    and "trim (d_medication s) \<noteq> []"
    and "req_id rq = Some k" and "k \<in> set (map fst (db_appointmentRequests d))"
    and "\<not> updateDoc_fails e" and "\<not> addDoc_fails e"
  shows "snd (confirmScheduling e (s, d)) =
           d\<lparr>db_appointmentRequests :=
                map (\<lambda>(k', r). if k' = k
                       then (k', r\<lparr>status := Scheduled, scheduledDate := Some day,
                                   scheduledTime := Some slot,
                                   medication := Some (trim (d_medication s))\<rparr>)
                       else (k', r)) (db_appointmentRequests d),
              db_appointments :=
                db_appointments d @
                  [(autoId (db_appointments d),
                    \<lparr>apt_id = None, appointmentDate = formatPPP e day, appointmentTime = slot,
                     assignedDoctor = displayNameOr (currentUser e) (js ''Doctor''),
                     apt_patientUsername = patientUsername rq,
                     apt_diagnosis = Some (diagnosis rq),
                     apt_medication = Some (trim (d_medication s)),
                     apt_scheduledDate = None\<rparr>)]\<rparr> \<and>
         autoId (db_appointments d) \<notin> set (map fst (db_appointments d))"
  using assms by (rule confirmScheduling_writes)

theorem confirmScheduling_schedules_creates_one_witness:
  "selectedRequest example_doctor_state = Some ((example_request ''ann'' None Pending)\<lparr>req_id := Some 1\<rparr>) \<and>
   date example_doctor_state = Some 2000 \<and>
   selectedTimeSlot example_doctor_state = Some (js ''9:00 AM'') \<and>
   d_medication example_doctor_state = js '' aspirin '' \<and>
   trim (d_medication example_doctor_state) = js ''aspirin'' \<and>
   \<not> updateDoc_fails example_env \<and> \<not> addDoc_fails example_env \<and>
   map (\<lambda>(k, r). (k, status r, scheduledDate r, scheduledTime r, medication r))
     (db_appointmentRequests (snd (confirmScheduling example_env (example_doctor_state, example_db)))) =
     [(1, Scheduled, Some 2000, Some (js ''9:00 AM''), Some (js ''aspirin'')),
      (2, Pending, None, None, None), (3, Pending, None, None, None)] \<and>
   db_appointments (snd (confirmScheduling example_env (example_doctor_state, example_db))) =
     [(1, \<lparr>apt_id = None, appointmentDate = js ''April 30th, 2025'',
           appointmentTime = js ''9:00 AM'', assignedDoctor = js ''Rao'',
           apt_patientUsername = js ''ann'', apt_diagnosis = Some (js ''cold''),
           apt_medication = Some (js ''aspirin''), apt_scheduledDate = None\<rparr>)]"
proof -
  have t: "trim (d_medication example_doctor_state) = js ''aspirin''"
    by (simp add: ex_defs trim_def isWhiteSpace_def)
  from confirmScheduling_schedules_creates_one[OF example_hyps] example_hyps t
  show ?thesis
    by (simp add: ex_defs autoId_def displayNameOr_def)
qed

text \<open>
  The claim as stated (the medication of the appointment equals the chosen value) fails
  when the text typed has white space around it: \<^verbatim>\<open>' aspirin '\<close> is stored as
  \<^verbatim>\<open>'aspirin'\<close>, in the appointment and in the request.
\<close>

theorem appointment_medication_counterexample:
  "selectedRequest example_doctor_state \<noteq> None \<and> date example_doctor_state \<noteq> None \<and>
   selectedTimeSlot example_doctor_state = Some (js ''9:00 AM'') \<and>
   d_medication example_doctor_state = js '' aspirin '' \<and>
   map (apt_medication \<circ> snd)
     (db_appointments (snd (confirmScheduling example_env (example_doctor_state, example_db)))) =
     [Some (js ''aspirin'')] \<and>
   map (medication \<circ> snd)
     (db_appointmentRequests (snd (confirmScheduling example_env (example_doctor_state, example_db)))) =
     [Some (js ''aspirin''), None, None] \<and>
   js ''aspirin'' \<noteq> d_medication example_doctor_state"
  by (simp add: confirmScheduling_def updateDoc_def addDoc_def getDocs_def Let_def
      ex_defs trim_def isWhiteSpace_def autoId_def displayNameOr_def)

text \<open>
  Claim C4. \<^verbatim>\<open>confirmScheduling\<close> does not look at the stored \<open>status\<close> or
  \<open>flaggedForReview\<close> of the request: whatever values \<open>st\<close> and \<open>fl\<close> the document holds,
  the same run applies. The component's state after it and the appointment created are
  the same, the stored status becomes \<open>Scheduled\<close>, and the stored flag stays what it was.
\<close>

theorem confirmScheduling_ignores_stored_status:
  assumes "selectedRequest s = Some rq" and "date s = Some day"
    and "selectedTimeSlot s = Some slot" and "slot \<noteq> []"
    and "trim (d_medication s) \<noteq> []"
    and "req_id rq = Some k" and "k \<in> set (map fst (db_appointmentRequests d))"
    and "\<not> updateDoc_fails e" and "\<not> addDoc_fails e"
  shows "fst (confirmScheduling e (s, with_stored k st fl d)) = fst (confirmScheduling e (s, d)) \<and>
         db_appointments (snd (confirmScheduling e (s, with_stored k st fl d))) =
           db_appointments (snd (confirmScheduling e (s, d))) \<and>
         length (db_appointments (snd (confirmScheduling e (s, with_stored k st fl d)))) =
           Suc (length (db_appointments d)) \<and>
         db_appointmentRequests (snd (confirmScheduling e (s, with_stored k st fl d))) =
           map (\<lambda>(k', r). if k' = k
                  then (k', r\<lparr>status := Scheduled, scheduledDate := Some day,
                              scheduledTime := Some slot,
                              medication := Some (trim (d_medication s)),
                              flaggedForReview := fl\<rparr>)
                  else (k', r)) (db_appointmentRequests d)"
proof -
  have W: "db_appointmentRequests (with_stored k st fl d) =
          map (\<lambda>(k', r). if k' = k then (k', r\<lparr>status := st, flaggedForReview := fl\<rparr>) else (k', r))
            (db_appointmentRequests d)"
    by (simp add: with_stored_def)
  from W have "map fst (db_appointmentRequests (with_stored k st fl d)) =
             map fst (db_appointmentRequests d)"
    by (simp only: keys_update)
  with assms(7) have k': "k \<in> set (map fst (db_appointmentRequests (with_stored k st fl d)))"
    by simp
  note A = confirmScheduling_writes[OF assms(1-6) k' assms(8,9)]
  note B = confirmScheduling_writes[OF assms]
  note F1 = confirmScheduling_fst[OF assms(1-6) k' assms(8,9)]
  note F2 = confirmScheduling_fst[OF assms]
  have P: "filter (\<lambda>(k', r). status r = Pending)
             (map (\<lambda>(k', r). if k' = k
                       then (k', r\<lparr>status := Scheduled, scheduledDate := Some day,
                                   scheduledTime := Some slot,
                                   medication := Some (trim (d_medication s))\<rparr>)
                       else (k', r)) (db_appointmentRequests (with_stored k st fl d))) =
           filter (\<lambda>(k', r). status r = Pending)
             (map (\<lambda>(k', r). if k' = k
                       then (k', r\<lparr>status := Scheduled, scheduledDate := Some day,
                                   scheduledTime := Some slot,
                                   medication := Some (trim (d_medication s))\<rparr>)
                       else (k', r)) (db_appointmentRequests d))"
    unfolding W by (rule pending_after_update) simp
  have 1: "fst (confirmScheduling e (s, with_stored k st fl d)) = fst (confirmScheduling e (s, d))"
    unfolding F1 F2 by (simp only: P)
  have 2: "db_appointments (snd (confirmScheduling e (s, with_stored k st fl d))) =
           db_appointments (snd (confirmScheduling e (s, d)))"
    using A B by (simp add: with_stored_def)
  have 3: "length (db_appointments (snd (confirmScheduling e (s, with_stored k st fl d)))) =
           Suc (length (db_appointments d))"
    using A by (simp add: with_stored_def)
  have 4: "db_appointmentRequests (snd (confirmScheduling e (s, with_stored k st fl d))) =
           map (\<lambda>(k', r). if k' = k
                  then (k', r\<lparr>status := Scheduled, scheduledDate := Some day,
                              scheduledTime := Some slot,
                              medication := Some (trim (d_medication s)),
                              flaggedForReview := fl\<rparr>)
                  else (k', r)) (db_appointmentRequests d)"
    using A by (auto simp add: with_stored_def)
  from 1 2 3 4 show ?thesis by blast
qed

theorem confirmScheduling_ignores_stored_status_witness:
  "map (\<lambda>(k, r). (k, status r, flaggedForReview r))
     (db_appointmentRequests (with_stored 1 Completed (Some True) example_db)) =
     [(1, Completed, Some True), (2, Pending, Some True), (3, Pending, Some False)] \<and>
   map (\<lambda>(k, r). (k, status r, flaggedForReview r))
     (db_appointmentRequests (snd (confirmScheduling example_env
        (example_doctor_state, with_stored 1 Completed (Some True) example_db)))) =
     [(1, Scheduled, Some True), (2, Pending, Some True), (3, Pending, Some False)] \<and>
   length (db_appointments (snd (confirmScheduling example_env
        (example_doctor_state, with_stored 1 Completed (Some True) example_db)))) = 1 \<and>
   fst (confirmScheduling example_env (example_doctor_state, with_stored 1 Completed (Some True) example_db)) =
     fst (confirmScheduling example_env (example_doctor_state, example_db))"
proof -
  have w: "map (\<lambda>(k, r). (k, status r, flaggedForReview r))
     (db_appointmentRequests (with_stored 1 Completed (Some True) example_db)) =
     [(1, Completed, Some True), (2, Pending, Some True), (3, Pending, Some False)]"
    by (simp add: with_stored_def ex_defs)
  note T = confirmScheduling_ignores_stored_status[OF example_hyps, of Completed "Some True"]
  have a: "map (\<lambda>(k, r). (k, status r, flaggedForReview r))
     (db_appointmentRequests (snd (confirmScheduling example_env
        (example_doctor_state, with_stored 1 Completed (Some True) example_db)))) =
     [(1, Scheduled, Some True), (2, Pending, Some True), (3, Pending, Some False)]"
    unfolding T[THEN conjunct2, THEN conjunct2, THEN conjunct2]
    by (simp add: example_db_def example_request_def)
  have b: "length (db_appointments (snd (confirmScheduling example_env
        (example_doctor_state, with_stored 1 Completed (Some True) example_db)))) = 1"
    unfolding T[THEN conjunct2, THEN conjunct2, THEN conjunct1]
    by (simp add: example_db_def)
  from w a b T[THEN conjunct1] show ?thesis by blast
qed

subsection \<open>Resubmission\<close>

lemma fetch_patient_db: "snd (fetchAppointmentRequests_patient e (s, d)) = d"
  by (simp add: fetchAppointmentRequests_patient_def Let_def split: option.splits sum.splits)

lemma handleResubmit_db:
  "snd (snd (handleResubmit e (rs, s, d))) =
     (case updateDoc e (db_appointmentRequests d) (req_id (request rs))
             (\<lambda>r. r\<lparr>symptoms := rs_symptoms rs, flaggedForReview := Some False,
                    resubmissionComment := Some (comment rs)\<rparr>) of
        Inl err \<Rightarrow> d
      | Inr c \<Rightarrow> d\<lparr>db_appointmentRequests := c\<rparr>)"
  using fetch_patient_db
  by (simp add: handleResubmit_def Let_def split_beta split: sum.splits)

lemma handleResubmit_frame:
  assumes "req_id (request rs) = Some k" "k \<in> set (map fst (db_appointmentRequests d))"
    "\<not> updateDoc_fails e"
  shows "snd (snd (handleResubmit e (rs, s, d))) =
           d\<lparr>db_appointmentRequests :=
               map (\<lambda>(k', r). if k' = k
                      then (k', r\<lparr>symptoms := rs_symptoms rs, flaggedForReview := Some False,
                                  resubmissionComment := Some (comment rs)\<rparr>)
                      else (k', r)) (db_appointmentRequests d)\<rparr>"
  using assms by (simp add: handleResubmit_db updateDoc_def)

text \<open>
  Claim C3. A resubmission that reaches the store sets \<open>flaggedForReview\<close> to \<^verbatim>\<open>false\<close>,
  overwrites \<open>symptoms\<close> and \<open>resubmissionComment\<close>, and changes nothing else: the
  documents keep their identifiers and their order, every other field of the request
  (among them \<open>status\<close>, \<open>patientId\<close>, \<open>patientUsername\<close>, \<open>diagnosis\<close>, \<open>createdAt\<close>) is
  what it was, and the other requests, the appointments and the users are untouched.
\<close>

theorem handleResubmit_clears_flag_keeps_rest:
  assumes "req_id (request rs) = Some k" "k \<in> set (map fst (db_appointmentRequests d))"
    "\<not> updateDoc_fails e"
  shows "snd (snd (handleResubmit e (rs, s, d))) =
           d\<lparr>db_appointmentRequests :=
               map (\<lambda>(k', r). if k' = k
                      then (k', r\<lparr>symptoms := rs_symptoms rs, flaggedForReview := Some False,
                                  resubmissionComment := Some (comment rs)\<rparr>)
                      else (k', r)) (db_appointmentRequests d)\<rparr> \<and>
         list_all2 (\<lambda>(k0, r) (k1, r').
             k1 = k0 \<and> req_id r' = req_id r \<and> patientId r' = patientId r \<and>
             patientUsername r' = patientUsername r \<and> diagnosis r' = diagnosis r \<and>
             medication r' = medication r \<and> status r' = status r \<and>
             createdAt r' = createdAt r \<and> scheduledDate r' = scheduledDate r \<and>
             scheduledTime r' = scheduledTime r \<and>
             (if k0 = k
              then symptoms r' = rs_symptoms rs \<and> flaggedForReview r' = Some False \<and>
                   resubmissionComment r' = Some (comment rs)
              else r' = r))
           (db_appointmentRequests d)
           (db_appointmentRequests (snd (snd (handleResubmit e (rs, s, d)))))"
proof (intro conjI)
  show "snd (snd (handleResubmit e (rs, s, d))) =
           d\<lparr>db_appointmentRequests :=
               map (\<lambda>(k', r). if k' = k
                      then (k', r\<lparr>symptoms := rs_symptoms rs, flaggedForReview := Some False,
                                  resubmissionComment := Some (comment rs)\<rparr>)
                      else (k', r)) (db_appointmentRequests d)\<rparr>"
    using assms by (rule handleResubmit_frame)
  then show "list_all2 (\<lambda>(k0, r) (k1, r').
             k1 = k0 \<and> req_id r' = req_id r \<and> patientId r' = patientId r \<and>
             patientUsername r' = patientUsername r \<and> diagnosis r' = diagnosis r \<and>
             medication r' = medication r \<and> status r' = status r \<and>
             createdAt r' = createdAt r \<and> scheduledDate r' = scheduledDate r \<and>
             scheduledTime r' = scheduledTime r \<and>
             (if k0 = k
              then symptoms r' = rs_symptoms rs \<and> flaggedForReview r' = Some False \<and>
                   resubmissionComment r' = Some (comment rs)
              else r' = r))
           (db_appointmentRequests d)
           (db_appointmentRequests (snd (snd (handleResubmit e (rs, s, d)))))"
    by (auto simp add: list_all2_map2 intro!: list.rel_refl_strong)
qed

theorem handleResubmit_clears_flag_keeps_rest_witness:
  "req_id (request example_resubmission) = Some 2 \<and>
   2 \<in> set (map fst (db_appointmentRequests example_db)) \<and>
   \<not> updateDoc_fails example_env \<and>
   map (\<lambda>(k, r). (k, status r, flaggedForReview r, symptoms r = js ''fever'',
                  resubmissionComment r, diagnosis r = js ''cold''))
     (db_appointmentRequests (snd (snd (handleResubmit example_env
        (example_resubmission, patient_init, example_db))))) =
     [(1, Pending, None, False, None, True),
      (2, Pending, Some False, True, Some (js ''since Monday''), True),
      (3, Pending, Some False, False, None, True)] \<and>
   db_appointments (snd (snd (handleResubmit example_env
        (example_resubmission, patient_init, example_db)))) = db_appointments example_db"
proof -
  have h: "req_id (request example_resubmission) = Some 2"
    "2 \<in> set (map fst (db_appointmentRequests example_db))"
    "\<not> updateDoc_fails example_env"
    by (simp_all add: example_resubmission_def ex_defs)
  note T = handleResubmit_clears_flag_keeps_rest[OF h, of patient_init, THEN conjunct1]
  have a: "map (\<lambda>(k, r). (k, status r, flaggedForReview r, symptoms r = js ''fever'',
                  resubmissionComment r, diagnosis r = js ''cold''))
     (db_appointmentRequests (snd (snd (handleResubmit example_env
        (example_resubmission, patient_init, example_db))))) =
     [(1, Pending, None, False, None, True),
      (2, Pending, Some False, True, Some (js ''since Monday''), True),
      (3, Pending, Some False, False, None, True)]"
    unfolding T by (simp add: example_resubmission_def example_db_def example_request_def js_def)
  have b: "db_appointments (snd (snd (handleResubmit example_env
        (example_resubmission, patient_init, example_db)))) = db_appointments example_db"
    unfolding T by simp
  from h a b show ?thesis by blast
qed

subsection \<open>The voice pipeline and the submission\<close>

lemma processAudio_transcription_fails:
  assumes "audioData s = Some blob" "transcriptionEndpoint e blob = Inl err"
  shows "processAudio e s =
     (Inr (), s\<lparr>p_toasts := p_toasts s @ [mk_toast ''Processing'' ''Transcribing your recording...'', processingFailed],
        calls := calls s @ [TranscriptionCall blob], isProcessing := False\<rparr>)"
  using assms
  by (simp add: processAudio_def processAudio_try_def transcribeAudio_def toast_p_def Let_def)

lemma processAudio_diagnosis_fails:
  assumes "audioData s = Some blob" "transcriptionEndpoint e blob = Inr tr" "chatEndpoint e tr = Inl err"
  shows "processAudio e s =
     (Inr (), s\<lparr>p_toasts := p_toasts s @ [mk_toast ''Processing'' ''Transcribing your recording...'',
            mk_toast ''Processing'' ''Generating diagnosis...'', processingFailed],
        calls := calls s @ [TranscriptionCall blob, ChatCall tr], isProcessing := False\<rparr>)"
  using assms
  by (simp add: processAudio_def processAudio_try_def transcribeAudio_def getDiagnosisFromTranscript_def toast_p_def Let_def)

lemma handleContinue_no_report:
  assumes "\<not> truthy_str (transcript (medicalReport s)) \<or> \<not> truthy_str (report_diagnosis (medicalReport s))"
  shows "snd (handleContinue e (s, d)) = d"
  using assms by (auto simp add: handleContinue_def)

lemma error_title: "js ''Processing'' \<noteq> js ''Error''"
  by (simp add: js_def)

text \<open>
  Claim C5. When a recording is processed and the transcription or the diagnosis step
  fails, \<^verbatim>\<open>processAudio\<close> returns normally (it does not rethrow); the medical report and
  \<open>reportReady\<close> are what they were, so a report that was empty stays empty and a
  submission after it writes nothing; each remote step was requested at most once, and
  the diagnosis not at all when the transcription failed; and the notifications added
  are the progress ones followed by exactly one error notification, the same whatever
  the failure was. \<^verbatim>\<open>processAudio\<close> itself has no access to the store.
\<close>

theorem processAudio_failure_aborts:
  assumes "audioData s = Some blob" and "pipeline_fails e blob"
  shows "fst (processAudio e s) = Inr () \<and>
         medicalReport (snd (processAudio e s)) = medicalReport s \<and>
         reportReady (snd (processAudio e s)) = reportReady s \<and>
         isProcessing (snd (processAudio e s)) = False \<and>
         calls (snd (processAudio e s)) =
           calls s @ (case transcriptionEndpoint e blob of
                        Inl err \<Rightarrow> [TranscriptionCall blob]
                      | Inr tr \<Rightarrow> [TranscriptionCall blob, ChatCall tr]) \<and>
         p_toasts (snd (processAudio e s)) =
           p_toasts s @ (case transcriptionEndpoint e blob of
                        Inl err \<Rightarrow> [mk_toast ''Processing'' ''Transcribing your recording...'']
                      | Inr tr \<Rightarrow> [mk_toast ''Processing'' ''Transcribing your recording...'',
                                  mk_toast ''Processing'' ''Generating diagnosis...''])
            @ [processingFailed] \<and>
         filter (\<lambda>t. title t = js ''Error'')
           (drop (length (p_toasts s)) (p_toasts (snd (processAudio e s)))) = [processingFailed] \<and>
         (transcript (medicalReport s) = None \<and> report_diagnosis (medicalReport s) = None \<longrightarrow>
            transcript (medicalReport (snd (processAudio e s))) = None \<and>
            report_diagnosis (medicalReport (snd (processAudio e s))) = None \<and>
            snd (handleContinue e' (snd (processAudio e s), d)) = d)"
proof (cases "transcriptionEndpoint e blob")
  case (Inl err)
  note R = processAudio_transcription_fails[OF assms(1) Inl]
  show ?thesis
    unfolding R using Inl
    by (simp add: handleContinue_no_report mk_toast_def processingFailed_def error_title)
next
  case (Inr tr)
  with assms(2) obtain err where "chatEndpoint e tr = Inl err"
    by (cases "chatEndpoint e tr") (simp_all add: pipeline_fails_def)
  note R = processAudio_diagnosis_fails[OF assms(1) Inr this]
  show ?thesis
    unfolding R using Inr
    by (simp add: handleContinue_no_report mk_toast_def processingFailed_def error_title)
qed

theorem processAudio_failure_aborts_witness:
  "audioData example_recorded = Some [1, 2, 3] \<and>
   pipeline_fails example_failing_env [1, 2, 3] \<and>
   pipeline_fails example_failing_chat_env [1, 2, 3] \<and>
   fst (processAudio example_failing_env example_recorded) = Inr () \<and>
   calls (snd (processAudio example_failing_env example_recorded)) = [TranscriptionCall [1, 2, 3]] \<and>
   calls (snd (processAudio example_failing_chat_env example_recorded)) =
     [TranscriptionCall [1, 2, 3], ChatCall (js ''cough'')] \<and>
   map title (p_toasts (snd (processAudio example_failing_env example_recorded))) =
     [js ''Processing'', js ''Error''] \<and>
   map title (p_toasts (snd (processAudio example_failing_chat_env example_recorded))) =
     [js ''Processing'', js ''Processing'', js ''Error''] \<and>
   medicalReport (snd (processAudio example_failing_env example_recorded)) =
     \<lparr>transcript = None, report_diagnosis = None\<rparr> \<and>
   medicalReport (snd (processAudio example_failing_chat_env example_recorded)) =
     \<lparr>transcript = None, report_diagnosis = None\<rparr> \<and>
   reportReady (snd (processAudio example_failing_env example_recorded)) = False \<and>
   snd (handleContinue example_env (snd (processAudio example_failing_env example_recorded), example_db)) =
     example_db"
proof -
  have h: "audioData example_recorded = Some [1, 2, 3]"
    "pipeline_fails example_failing_env [1, 2, 3]"
    "pipeline_fails example_failing_chat_env [1, 2, 3]"
    by (simp_all add: example_recorded_def example_failing_env_def example_failing_chat_env_def
        pipeline_fails_def example_env_def)
  have e: "transcriptionEndpoint example_failing_env [1, 2, 3] = Inl (Error (js ''timeout''))"
    "transcriptionEndpoint example_failing_chat_env [1, 2, 3] = Inr (js ''cough'')"
    by (simp_all add: example_failing_env_def example_failing_chat_env_def example_env_def)
  have i: "medicalReport example_recorded = \<lparr>transcript = None, report_diagnosis = None\<rparr>"
    "reportReady example_recorded = False" "calls example_recorded = []"
    "p_toasts example_recorded = []"
    by (simp_all add: example_recorded_def patient_init_def)
  from processAudio_failure_aborts[OF h(1) h(2), of example_env example_db]
       processAudio_failure_aborts[OF h(1) h(3), of example_env example_db] h
  show ?thesis
    by (simp add: e i mk_toast_def processingFailed_def)
qed

lemma handleContinue_rejects:
  assumes "\<not> truthy_str (transcript (medicalReport s)) \<or>
           \<not> truthy_str (report_diagnosis (medicalReport s)) \<or>
           currentUser e = None \<or> addDoc_fails e"
  shows "snd (handleContinue e (s, d)) = d"
  using assms by (auto simp add: handleContinue_def addDoc_def Let_def split: option.splits)

lemma handleContinue_persists:
  assumes "truthy_str (transcript (medicalReport s))" "truthy_str (report_diagnosis (medicalReport s))"
    "currentUser e = Some u" "\<not> addDoc_fails e"
  shows "snd (handleContinue e (s, d)) =
     d\<lparr>db_appointmentRequests := db_appointmentRequests d @
         [(autoId (db_appointmentRequests d),
           \<lparr>req_id = None, patientId = uid u,
            patientUsername = displayNameOr (Some u) (js ''Anonymous''),
            symptoms = the (transcript (medicalReport s)),
            diagnosis = the (report_diagnosis (medicalReport s)),
            medication = None, status = Pending, createdAt = now e,
            scheduledDate = None, scheduledTime = None, flaggedForReview = None,
            resubmissionComment = None\<rparr>)]\<rparr>"
  using assms by (simp add: handleContinue_def addDoc_def Let_def)

text \<open>
  Claim C7. When a transcript and a diagnosis are present, a user is signed in and the
  write succeeds, \<^verbatim>\<open>handleContinue\<close> adds exactly one request, under an identifier not in
  use: its status is \<open>Pending\<close>, its symptoms are the transcript, its diagnosis the
  generated diagnosis, its \<open>patientId\<close> the user's \<open>uid\<close>, and it has no \<open>scheduledDate\<close>,
  \<open>scheduledTime\<close>, \<open>flaggedForReview\<close>, \<open>medication\<close> or \<open>resubmissionComment\<close>. When the
  transcript or the diagnosis is missing or empty, or nobody is signed in, or the write
  fails, the store is unchanged.
\<close>

theorem handleContinue_creates_pending_request:
  "(truthy_str (transcript (medicalReport s)) \<and> truthy_str (report_diagnosis (medicalReport s)) \<and>
    currentUser e = Some u \<and> \<not> addDoc_fails e \<longrightarrow>
      (\<exists>r. snd (handleContinue e (s, d)) =
              d\<lparr>db_appointmentRequests :=
                   db_appointmentRequests d @ [(autoId (db_appointmentRequests d), r)]\<rparr> \<and>
           autoId (db_appointmentRequests d) \<notin> set (map fst (db_appointmentRequests d)) \<and>
           status r = Pending \<and>
           Some (symptoms r) = transcript (medicalReport s) \<and>
           Some (diagnosis r) = report_diagnosis (medicalReport s) \<and>
           patientId r = uid u \<and>
           scheduledDate r = None \<and> scheduledTime r = None \<and> flaggedForReview r = None \<and>
           medication r = None \<and> resubmissionComment r = None)) \<and>
   (\<not> truthy_str (transcript (medicalReport s)) \<or>
    \<not> truthy_str (report_diagnosis (medicalReport s)) \<or> currentUser e = None \<or>
    addDoc_fails e \<longrightarrow>
      snd (handleContinue e (s, d)) = d)"
proof (intro conjI impI)
  assume "\<not> truthy_str (transcript (medicalReport s)) \<or>
    \<not> truthy_str (report_diagnosis (medicalReport s)) \<or> currentUser e = None \<or>
    addDoc_fails e"
  then show "snd (handleContinue e (s, d)) = d"
    by (rule handleContinue_rejects)
next
  assume a: "truthy_str (transcript (medicalReport s)) \<and> truthy_str (report_diagnosis (medicalReport s)) \<and>
    currentUser e = Some u \<and> \<not> addDoc_fails e"
  then obtain t g where tg: "transcript (medicalReport s) = Some t" "report_diagnosis (medicalReport s) = Some g"
    by (cases "transcript (medicalReport s)"; cases "report_diagnosis (medicalReport s)") simp_all
  from a have P: "snd (handleContinue e (s, d)) =
     d\<lparr>db_appointmentRequests := db_appointmentRequests d @
         [(autoId (db_appointmentRequests d),
           \<lparr>req_id = None, patientId = uid u,
            patientUsername = displayNameOr (Some u) (js ''Anonymous''),
            symptoms = the (transcript (medicalReport s)),
            diagnosis = the (report_diagnosis (medicalReport s)),
            medication = None, status = Pending, createdAt = now e,
            scheduledDate = None, scheduledTime = None, flaggedForReview = None,
            resubmissionComment = None\<rparr>)]\<rparr>"
    by (intro handleContinue_persists) simp_all
  show "\<exists>r. snd (handleContinue e (s, d)) =
              d\<lparr>db_appointmentRequests :=
                   db_appointmentRequests d @ [(autoId (db_appointmentRequests d), r)]\<rparr> \<and>
           autoId (db_appointmentRequests d) \<notin> set (map fst (db_appointmentRequests d)) \<and>
           status r = Pending \<and>
           Some (symptoms r) = transcript (medicalReport s) \<and>
           Some (diagnosis r) = report_diagnosis (medicalReport s) \<and>
           patientId r = uid u \<and>
           scheduledDate r = None \<and> scheduledTime r = None \<and> flaggedForReview r = None \<and>
           medication r = None \<and> resubmissionComment r = None"
    unfolding P using autoId_fresh[of "db_appointmentRequests d"] tg
    by (intro exI[of _ "\<lparr>req_id = None, patientId = uid u,
            patientUsername = displayNameOr (Some u) (js ''Anonymous''),
            symptoms = the (transcript (medicalReport s)),
            diagnosis = the (report_diagnosis (medicalReport s)),
            medication = None, status = Pending, createdAt = now e,
            scheduledDate = None, scheduledTime = None, flaggedForReview = None,
            resubmissionComment = None\<rparr>"]) simp
qed

theorem handleContinue_creates_pending_request_witness:
  "truthy_str (transcript (medicalReport example_reported)) \<and>
   truthy_str (report_diagnosis (medicalReport example_reported)) \<and>
   currentUser example_env = Some \<lparr>uid = js ''d1'', displayName = Some (js ''Rao'')\<rparr> \<and>
   \<not> addDoc_fails example_env \<and>
   (\<exists>r. db_appointmentRequests (snd (handleContinue example_env (example_reported, example_db))) =
          db_appointmentRequests example_db @ [(4, r)] \<and>
        status r = Pending \<and> symptoms r = js ''cough'' \<and> diagnosis r = js ''cold'' \<and>
        patientId r = js ''d1'' \<and> scheduledDate r = None \<and> scheduledTime r = None \<and>
        flaggedForReview r = None) \<and>
   \<not> truthy_str (transcript (medicalReport patient_init)) \<and>
   snd (handleContinue example_env (patient_init, example_db)) = example_db"
proof -
  have h: "truthy_str (transcript (medicalReport example_reported))"
    "truthy_str (report_diagnosis (medicalReport example_reported))"
    "currentUser example_env = Some \<lparr>uid = js ''d1'', displayName = Some (js ''Rao'')\<rparr>"
    "\<not> addDoc_fails example_env"
    "\<not> truthy_str (transcript (medicalReport patient_init))"
    by (simp_all add: example_reported_def patient_init_def example_env_def js_def)
  have k: "autoId (db_appointmentRequests example_db) = 4"
    by (simp add: autoId_def example_db_def)
  have m: "transcript (medicalReport example_reported) = Some (js ''cough'')"
    "report_diagnosis (medicalReport example_reported) = Some (js ''cold'')"
    by (simp_all add: example_reported_def patient_init_def)
  from handleContinue_creates_pending_request[of example_reported example_env
         "\<lparr>uid = js ''d1'', displayName = Some (js ''Rao'')\<rparr>" example_db]
       handleContinue_creates_pending_request[of patient_init example_env
         "\<lparr>uid = js ''d1'', displayName = Some (js ''Rao'')\<rparr>" example_db] h
  show ?thesis
    by (auto simp add: k m)
qed

subsection \<open>What the operations do to the store\<close>

lemma completed_ids_iff:
  "k \<in> completed_ids d \<longleftrightarrow> (\<exists>r. (k, r) \<in> set (db_appointmentRequests d) \<and> status r = Completed)"
  by (force simp: completed_ids_def)

lemma updateDoc_Inr:
  "updateDoc e c ido f = Inr c' \<Longrightarrow>
     \<exists>k. c' = map (\<lambda>(k', r). if k' = k then (k', f r) else (k', r)) c"
  by (auto simp: updateDoc_def split: option.splits if_splits)

lemma completed_update:
  assumes f: "\<And>r. status (f r) = Completed \<Longrightarrow> status r = Completed"
    and mem: "(k', r') \<in> set (map (\<lambda>(k', r). if k' = k then (k', f r) else (k', r)) c)"
    and st: "status r' = Completed"
  shows "\<exists>r. (k', r) \<in> set c \<and> status r = Completed"
proof -
  from mem obtain k0 r0 where in_c: "(k0, r0) \<in> set c"
    and eq: "(k', r') = (if k0 = k then (k0, f r0) else (k0, r0))"
    by auto
  show ?thesis
  proof (cases "k0 = k")
    case True
    with eq have "k' = k0" "r' = f r0" by simp_all
    with st f[of r0] in_c show ?thesis by blast
  next
    case False
    with eq have "k' = k0" "r' = r0" by simp_all
    with st in_c show ?thesis by blast
  qed
qed

lemma completed_updateDoc:
  assumes "\<And>r. status (f r) = Completed \<Longrightarrow> status r = Completed"
    and "updateDoc e (db_appointmentRequests d) ido f = Inr c'"
  shows "completed_ids (d\<lparr>db_appointmentRequests := c'\<rparr>) \<subseteq> completed_ids d"
proof
  fix k assume "k \<in> completed_ids (d\<lparr>db_appointmentRequests := c'\<rparr>)"
  then obtain r' where r': "(k, r') \<in> set c'" "status r' = Completed"
    by (auto simp: completed_ids_iff)
  from updateDoc_Inr[OF assms(2)] obtain k0 where
    "c' = map (\<lambda>(k', r). if k' = k0 then (k', f r) else (k', r)) (db_appointmentRequests d)" ..
  with r' completed_update[where f = f and k' = k and r' = r' and k = k0
      and c = "db_appointmentRequests d"] assms(1)
  show "k \<in> completed_ids d" by (auto simp: completed_ids_iff)
qed

lemma completed_case_updateDoc:
  assumes "\<And>r. status (f r) = Completed \<Longrightarrow> status r = Completed"
  shows "completed_ids (case updateDoc e (db_appointmentRequests d) ido f of
                          Inl err \<Rightarrow> d | Inr c \<Rightarrow> d\<lparr>db_appointmentRequests := c\<rparr>)
           \<subseteq> completed_ids d"
  using completed_updateDoc[of f e d ido, OF assms]
  by (cases "updateDoc e (db_appointmentRequests d) ido f") simp_all

lemma completed_ids_cong:
  "db_appointmentRequests d1 = db_appointmentRequests d2 \<Longrightarrow> completed_ids d1 = completed_ids d2"
  by (simp add: completed_ids_def)

lemma fetch_doctor_db: "snd (fetchAppointmentRequests_doctor e (s, d)) = d"
  by (simp add: fetchAppointmentRequests_doctor_def Let_def split: sum.splits)

lemma fetch_assigned_db: "snd (fetchAssignedAppointments e (s, d)) = d"
  by (simp add: fetchAssignedAppointments_def Let_def split: sum.splits)

lemma handleFlagForReview_db:
  "snd (handleFlagForReview e rq (s, d)) =
     (case updateDoc e (db_appointmentRequests d) (req_id rq) (\<lambda>r. r\<lparr>flaggedForReview := Some True\<rparr>) of
        Inl err \<Rightarrow> d
      | Inr c \<Rightarrow> d\<lparr>db_appointmentRequests := c\<rparr>)"
  by (simp add: handleFlagForReview_def Let_def split: sum.splits)

lemma onSubmit_db:
  "db_appointmentRequests (snd (onSubmit e l v d)) = db_appointmentRequests d \<and>
   db_appointments (snd (onSubmit e l v d)) = db_appointments d"
  by (simp add: onSubmit_def split: sum.splits)

lemma handleContinue_appointments:
  "db_appointments (snd (handleContinue e (s, d))) = db_appointments d"
  by (simp add: handleContinue_def Let_def split: option.splits sum.splits)

lemma handleContinue_completed:
  "completed_ids (snd (handleContinue e (s, d))) \<subseteq> completed_ids d"
  by (auto simp add: handleContinue_def addDoc_def Let_def completed_ids_iff split: option.splits sum.splits if_splits)

lemma handleResubmit_appointments:
  "db_appointments (snd (snd (handleResubmit e (rs, s, d)))) = db_appointments d"
  by (simp add: handleResubmit_db split: sum.splits)

lemma handleResubmit_completed:
  "completed_ids (snd (snd (handleResubmit e (rs, s, d)))) \<subseteq> completed_ids d"
  unfolding handleResubmit_db by (rule completed_case_updateDoc) simp

lemma handleFlagForReview_appointments:
  "db_appointments (snd (handleFlagForReview e rq (s, d))) = db_appointments d"
  by (simp add: handleFlagForReview_db split: sum.splits)

lemma handleFlagForReview_completed:
  "completed_ids (snd (handleFlagForReview e rq (s, d))) \<subseteq> completed_ids d"
  unfolding handleFlagForReview_db by (rule completed_case_updateDoc) simp

lemma onSubmit_completed:
  "completed_ids (snd (onSubmit e l v d)) \<subseteq> completed_ids d"
  by (simp add: completed_ids_def onSubmit_db)

lemma completed_ids_appointments [simp]:
  "completed_ids (d\<lparr>db_appointments := a\<rparr>) = completed_ids d"
  by (simp add: completed_ids_def)

lemma confirmScheduling_rejects:
  assumes "selectedRequest s = None \<or> date s = None \<or> \<not> truthy_str (selectedTimeSlot s) \<or>
           trim (d_medication s) = []"
  shows "snd (confirmScheduling e (s, d)) = d"
proof (cases "selectedRequest s = None \<or> date s = None \<or> \<not> truthy_str (selectedTimeSlot s)")
  case True
  then show ?thesis by (simp add: confirmScheduling_def)
next
  case False
  with assms have "trim (d_medication s) = []" by blast
  with False show ?thesis by (simp add: confirmScheduling_def)
qed

lemma confirmScheduling_completed:
  "completed_ids (snd (confirmScheduling e (s, d))) \<subseteq> completed_ids d"
proof (cases "selectedRequest s = None \<or> date s = None \<or> \<not> truthy_str (selectedTimeSlot s) \<or>
              trim (d_medication s) = []")
  case True
  then show ?thesis by (simp only: confirmScheduling_rejects subset_refl)
next
  case False
  then obtain rq day slot where h: "selectedRequest s = Some rq" "date s = Some day"
    "selectedTimeSlot s = Some slot" "slot \<noteq> []" "trim (d_medication s) \<noteq> []"
    by (rule confirmScheduling_runs)
  let ?f = "\<lambda>r. r\<lparr>status := Scheduled, scheduledDate := Some day, scheduledTime := Some slot,
                   medication := Some (trim (d_medication s))\<rparr>"
  show ?thesis
  proof (cases "updateDoc e (db_appointmentRequests d) (req_id rq) ?f")
    case (Inl err)
    then show ?thesis by (simp add: confirmScheduling_db[OF h])
  next
    case (Inr c)
    have "completed_ids (snd (confirmScheduling e (s, d))) = completed_ids (d\<lparr>db_appointmentRequests := c\<rparr>)"
      using Inr by (simp add: confirmScheduling_db[OF h] completed_ids_def split: sum.splits)
    also have "\<dots> \<subseteq> completed_ids d"
      by (rule completed_updateDoc[OF _ Inr]) simp
    finally show ?thesis .
  qed
qed

lemma confirmScheduling_appointments:
  "db_appointments (snd (confirmScheduling e (s, d))) = db_appointments d \<or>
   (\<exists>a. db_appointments (snd (confirmScheduling e (s, d))) =
          db_appointments d @ [(autoId (db_appointments d), a)])"
proof (cases "selectedRequest s = None \<or> date s = None \<or> \<not> truthy_str (selectedTimeSlot s) \<or>
              trim (d_medication s) = []")
  case True
  then show ?thesis by (simp only: confirmScheduling_rejects simp_thms)
next
  case False
  then obtain rq day slot where h: "selectedRequest s = Some rq" "date s = Some day"
    "selectedTimeSlot s = Some slot" "slot \<noteq> []" "trim (d_medication s) \<noteq> []"
    by (rule confirmScheduling_runs)
  show ?thesis
    by (simp add: confirmScheduling_db[OF h] addDoc_def split: sum.splits)
qed

lemma apply_event_completed: "completed_ids (apply_event ev d) \<subseteq> completed_ids d"
  by (cases ev)
     (simp_all add: fetch_patient_db fetch_doctor_db fetch_assigned_db onSubmit_completed
        handleContinue_completed handleResubmit_completed handleFlagForReview_completed
        confirmScheduling_completed)

lemma run_completed: "completed_ids (run es d) \<subseteq> completed_ids d"
  unfolding run_def
proof (induction es arbitrary: d)
  case Nil
  show ?case by simp
next
  case (Cons ev es)
  have "completed_ids (fold apply_event es (apply_event ev d)) \<subseteq> completed_ids (apply_event ev d)"
    by (rule Cons.IH)
  also have "\<dots> \<subseteq> completed_ids d" by (rule apply_event_completed)
  finally show ?case by simp
qed

lemma apply_event_appointments:
  "db_appointments (apply_event ev d) = db_appointments d \<or>
   (is_ConfirmScheduling ev \<and>
    (\<exists>a. db_appointments (apply_event ev d) = db_appointments d @ [(autoId (db_appointments d), a)]))"
  using confirmScheduling_appointments
  by (cases ev)
     (simp_all add: fetch_patient_db fetch_doctor_db fetch_assigned_db onSubmit_db
        handleContinue_appointments handleResubmit_appointments handleFlagForReview_appointments)

lemma run_appointments_prefix: "prefix (db_appointments d) (db_appointments (run es d))"
  unfolding run_def
proof (induction es arbitrary: d)
  case Nil
  show ?case by simp
next
  case (Cons ev es)
  have "prefix (db_appointments d) (db_appointments (apply_event ev d))"
    using apply_event_appointments[of ev d] by auto
  also have "prefix \<dots> (db_appointments (fold apply_event es (apply_event ev d)))"
    by (rule Cons.IH)
  finally show ?case by simp
qed

lemma apply_event_distinct:
  "distinct (map fst (db_appointments d)) \<Longrightarrow> distinct (map fst (db_appointments (apply_event ev d)))"
  using apply_event_appointments[of ev d] autoId_fresh[of "db_appointments d"] by auto

lemma run_distinct:
  "distinct (map fst (db_appointments d)) \<Longrightarrow> distinct (map fst (db_appointments (run es d)))"
  unfolding run_def
  by (induction es arbitrary: d) (simp_all add: apply_event_distinct)

lemmas run_defs = run_def example_events_def handleContinue_def handleFlagForReview_def
  handleResubmit_def confirmScheduling_def fetchAssignedAppointments_def
  fetchAppointmentRequests_patient_def updateDoc_def addDoc_def getDocs_def Let_def autoId_def
  trim_def isWhiteSpace_def example_reported_def example_resubmission_def patient_init_def
  displayNameOr_def toast_p_def

lemma example_run_requests:
  "map (\<lambda>(k, r). (k, status r, flaggedForReview r))
     (db_appointmentRequests (run example_events example_db)) =
   [(1, Scheduled, None), (2, Pending, Some False), (3, Pending, Some True), (4, Pending, None)]"
  by (simp add: run_defs ex_defs)

lemma example_run_appointments:
  "map (\<lambda>(k, a). (k, apt_patientUsername a)) (db_appointments (run example_events example_db)) =
     [(1, js ''ann'')]"
  by (simp add: run_defs ex_defs)

lemma example_run_twice_appointments:
  "map (\<lambda>(k, a). (k, apt_patientUsername a))
     (db_appointments (run example_events (run example_events example_db))) =
     [(1, js ''ann''), (2, js ''ann'')]"
  by (simp add: run_defs ex_defs)

subsection \<open>Appointments and the status \<^verbatim>\<open>completed\<close>\<close>

text \<open>
  Claim C6. No operation of the application updates or deletes an appointment: after any
  sequence of operations the appointments that were stored are still there, unchanged
  and in the same positions, followed by the new ones. A single operation leaves the
  collection as it was, unless it is a scheduling confirmation, which may append exactly
  one record under an unused identifier; so identifiers that were distinct stay distinct,
  and every appointment is created once.
\<close>

theorem appointments_created_once_never_changed:
  "prefix (db_appointments d) (db_appointments (run es d)) \<and>
   (db_appointments (apply_event ev d) = db_appointments d \<or>
    is_ConfirmScheduling ev \<and>
    (\<exists>a. db_appointments (apply_event ev d) =
            db_appointments d @ [(autoId (db_appointments d), a)])) \<and>
   (distinct (map fst (db_appointments d)) \<longrightarrow>
      distinct (map fst (db_appointments (run es d))))"
  using run_appointments_prefix[of d es] apply_event_appointments[of ev d] run_distinct[of d es]
  by blast

theorem appointments_created_once_never_changed_witness:
  "distinct (map fst (db_appointments (run example_events example_db))) \<and>
   map (\<lambda>(k, a). (k, apt_patientUsername a)) (db_appointments (run example_events example_db)) =
     [(1, js ''ann'')] \<and>
   map (\<lambda>(k, a). (k, apt_patientUsername a))
     (db_appointments (run example_events (run example_events example_db))) =
     [(1, js ''ann''), (2, js ''ann'')] \<and>
   prefix (db_appointments (run example_events example_db))
     (db_appointments (run example_events (run example_events example_db))) \<and>
   distinct (map fst (db_appointments (run example_events (run example_events example_db))))"
proof -
  have "map fst (db_appointments (run example_events example_db)) =
        map fst (map (\<lambda>(k, a). (k, apt_patientUsername a))
          (db_appointments (run example_events example_db)))"
    by (simp add: case_prod_unfold comp_def)
  then have h: "distinct (map fst (db_appointments (run example_events example_db)))"
    unfolding example_run_appointments by simp
  from appointments_created_once_never_changed[of "run example_events example_db" example_events
         "ConfirmScheduling example_env example_doctor_state"]
       h example_run_appointments example_run_twice_appointments
  show ?thesis by blast
qed

text \<open>
  Claim C8. No operation writes the status \<^verbatim>\<open>completed\<close>: after any sequence of
  operations, a request that was not completed (or did not exist) is not completed.
\<close>

theorem completed_never_reached:
  "k \<notin> completed_ids d \<Longrightarrow> k \<notin> completed_ids (run es d)"
  using run_completed[of es d] by blast

theorem completed_never_reached_witness:
  "1 \<notin> completed_ids example_db \<and> 4 \<notin> completed_ids example_db \<and>
   1 \<notin> completed_ids (run example_events example_db) \<and>
   4 \<notin> completed_ids (run example_events example_db) \<and>
   map (\<lambda>(k, r). (k, status r, flaggedForReview r))
     (db_appointmentRequests (run example_events example_db)) =
   [(1, Scheduled, None), (2, Pending, Some False), (3, Pending, Some True), (4, Pending, None)]"
proof -
  have h: "1 \<notin> completed_ids example_db" "4 \<notin> completed_ids example_db"
    by (simp_all add: completed_ids_def example_db_def example_request_def)
  from completed_never_reached[OF h(1), of example_events]
       completed_never_reached[OF h(2), of example_events] h example_run_requests
  show ?thesis by blast
qed

subsection \<open>The order of the doctor's appointments\<close>

lemma insertSorted_NaN:
  assumes "\<forall>y \<in> set ys. f x y = None"
  shows "insertSorted f x ys = x # ys"
  using assms by (cases ys) (simp_all add: sortCompare_def)

lemma array_sort_NaN:
  assumes "\<forall>x \<in> set xs. \<forall>y \<in> set xs. f x y = None"
  shows "array_sort f xs = xs"
  using assms
proof (induction xs)
  case Nil
  show ?case by simp
next
  case (Cons x xs)
  then have "array_sort f xs = xs" by simp
  moreover from Cons.prems have "\<forall>y \<in> set xs. f x y = None" by simp
  ultimately show ?case by (simp add: insertSorted_NaN)
qed

lemma set_insertSorted: "set (insertSorted f x xs) = insert x (set xs)"
  by (induction xs) auto

lemma set_array_sort: "set (array_sort f xs) = set xs"
  by (induction xs) (auto simp: set_insertSorted)

lemma sorted_insertSorted:
  assumes "\<forall>a \<in> insert x (set xs). \<forall>b \<in> insert x (set xs). f a b = Some (key a - key b)"
    and "sorted_wrt (\<lambda>a b. key a \<le> key b) xs"
  shows "sorted_wrt (\<lambda>a b. (key a :: int) \<le> key b) (insertSorted f x xs)"
  using assms
proof (induction xs)
  case Nil
  show ?case by simp
next
  case (Cons y ys)
  from Cons.prems(1) have xy: "f x y = Some (key x - key y)" by simp
  show ?case
  proof (cases "key x \<le> key y")
    case True
    with xy Cons.prems(2) show ?thesis by (auto simp: sortCompare_def)
  next
    case False
    from Cons.prems have "sorted_wrt (\<lambda>a b. key a \<le> key b) (insertSorted f x ys)"
      by (intro Cons.IH) auto
    with False xy Cons.prems(2) show ?thesis
      by (auto simp: sortCompare_def set_insertSorted)
  qed
qed

lemma sorted_array_sort:
  assumes "\<forall>a \<in> set xs. \<forall>b \<in> set xs. f a b = Some (key a - key b)"
  shows "sorted_wrt (\<lambda>a b. (key a :: int) \<le> key b) (array_sort f xs)"
  using assms
proof (induction xs)
  case Nil
  show ?case by simp
next
  case (Cons x xs)
  then have "sorted_wrt (\<lambda>a b. key a \<le> key b) (array_sort f xs)" by simp
  with Cons.prems show ?case
    by (simp only: array_sort.simps) (rule sorted_insertSorted, simp_all add: set_array_sort)
qed

lemma appointmentInstant_apt_id [simp]:
  "appointmentInstant e (a\<lparr>apt_id := i\<rparr>) = appointmentInstant e a"
  by (simp add: appointmentInstant_def)

lemma compareAppointments_None:
  "appointmentInstant e a = None \<Longrightarrow> compareAppointments e a b = None"
  by (simp add: compareAppointments_def)

lemma compareAppointments_Some:
  "appointmentInstant e a \<noteq> None \<Longrightarrow> appointmentInstant e b \<noteq> None \<Longrightarrow>
   compareAppointments e a b = Some (the (appointmentInstant e a) - the (appointmentInstant e b))"
  by (auto simp add: compareAppointments_def)

text \<open>When every date string parses, the displayed list is in ascending order of the instants.\<close>

lemma fetchAssignedAppointments_sorted_when_parsed:
  assumes "\<not> getDocs_fails e"
    and "\<forall>(k, a) \<in> set (db_appointments d). appointmentInstant e a \<noteq> None"
  shows "sorted_wrt (\<lambda>a b. the (appointmentInstant e a) \<le> the (appointmentInstant e b))
           (assignedAppointments (fst (fetchAssignedAppointments e (s, d))))"
proof -
  let ?docs = "filter (\<lambda>(k, a). assignedDoctor a = displayNameOr (currentUser e) (js ''Doctor''))
                 (db_appointments d)"
  let ?apps = "map (\<lambda>(k, data). data\<lparr>apt_id := Some k\<rparr>) ?docs"
  have R: "assignedAppointments (fst (fetchAssignedAppointments e (s, d))) =
           array_sort (compareAppointments e) ?apps"
    using assms(1) by (simp add: fetchAssignedAppointments_def getDocs_def Let_def)
  have "\<forall>a \<in> set ?apps. appointmentInstant e a \<noteq> None"
    using assms(2) by auto
  then have "\<forall>a \<in> set ?apps. \<forall>b \<in> set ?apps. compareAppointments e a b =
           Some (the (appointmentInstant e a) - the (appointmentInstant e b))"
    by (blast intro: compareAppointments_Some)
  then show ?thesis unfolding R by (rule sorted_array_sort)
qed

text \<open>
  Claim C10 says that the list of assigned appointments is always in ascending order of
  the instants of its entries. The comparator of the sort delivers \<^verbatim>\<open>NaN\<close> when a date
  string does not parse, and the sort then treats the two entries as equal: when no date
  string of the collection parses, the list displayed is the fetched list in its fetch
  order. The dates the application itself stores carry an ordinal suffix; under a parser
  that rejects them the later day stays before the earlier one.
\<close>

theorem assigned_appointments_unparsed_keep_fetch_order:
  assumes "\<not> getDocs_fails e"
    and "\<forall>(k, a) \<in> set (db_appointments d). appointmentInstant e a = None"
  shows "assignedAppointments (fst (fetchAssignedAppointments e (s, d))) =
           map (\<lambda>(k, data). data\<lparr>apt_id := Some k\<rparr>)
             (filter (\<lambda>(k, a). assignedDoctor a = displayNameOr (currentUser e) (js ''Doctor''))
                (db_appointments d))"
proof -
  let ?docs = "filter (\<lambda>(k, a). assignedDoctor a = displayNameOr (currentUser e) (js ''Doctor''))
                 (db_appointments d)"
  let ?apps = "map (\<lambda>(k, data). data\<lparr>apt_id := Some k\<rparr>) ?docs"
  have R: "assignedAppointments (fst (fetchAssignedAppointments e (s, d))) =
           array_sort (compareAppointments e) ?apps"
    using assms(1) by (simp add: fetchAssignedAppointments_def getDocs_def Let_def)
  have "\<forall>a \<in> set ?apps. appointmentInstant e a = None"
    using assms(2) by auto
  then have "\<forall>a \<in> set ?apps. \<forall>b \<in> set ?apps. compareAppointments e a b = None"
    by (blast intro: compareAppointments_None)
  then show ?thesis unfolding R by (rule array_sort_NaN)
qed

theorem assigned_appointments_unparsed_keep_fetch_order_witness:
  "\<not> getDocs_fails example_parsing_env \<and>
   map (\<lambda>(k, a). appointmentInstant example_parsing_env a)
     (db_appointments (example_appointments_db ''April 30th, 2025'' ''April 29th, 2025'')) =
     [None, None] \<and>
   map (\<lambda>a. (apt_id a, appointmentDate a))
     (assignedAppointments (fst (fetchAssignedAppointments example_parsing_env
        (doctor_init example_parsing_env,
         example_appointments_db ''April 30th, 2025'' ''April 29th, 2025'')))) =
     [(Some 1, js ''April 30th, 2025''), (Some 2, js ''April 29th, 2025'')] \<and>
   map (\<lambda>a. (apt_id a, appointmentDate a))
     (assignedAppointments (fst (fetchAssignedAppointments example_parsing_env
        (doctor_init example_parsing_env,
         example_appointments_db ''April 30, 2025'' ''April 29, 2025'')))) =
     [(Some 2, js ''April 29, 2025''), (Some 1, js ''April 30, 2025'')]"
proof -
  have h1: "\<not> getDocs_fails example_parsing_env"
    by (simp add: example_parsing_env_def example_env_def)
  have i: "map (\<lambda>(k, a). appointmentInstant example_parsing_env a)
     (db_appointments (example_appointments_db ''April 30th, 2025'' ''April 29th, 2025'')) =
     [None, None]"
    by (simp add: example_parsing_env_def example_env_def example_appointments_db_def
        example_appointment_def appointmentInstant_def example_dateParse_def js_def)
  have h2: "\<forall>(k, a) \<in> set (db_appointments
              (example_appointments_db ''April 30th, 2025'' ''April 29th, 2025'')).
            appointmentInstant example_parsing_env a = None"
    by (simp add: example_parsing_env_def example_env_def example_appointments_db_def
        example_appointment_def appointmentInstant_def example_dateParse_def js_def)
  note T = assigned_appointments_unparsed_keep_fetch_order[OF h1 h2, of "doctor_init example_parsing_env"]
  have a: "map (\<lambda>a. (apt_id a, appointmentDate a))
     (assignedAppointments (fst (fetchAssignedAppointments example_parsing_env
        (doctor_init example_parsing_env,
         example_appointments_db ''April 30th, 2025'' ''April 29th, 2025'')))) =
     [(Some 1, js ''April 30th, 2025''), (Some 2, js ''April 29th, 2025'')]"
    unfolding T
    by (simp add: example_parsing_env_def example_env_def example_appointments_db_def
        example_appointment_def displayNameOr_def js_def)
  have b: "map (\<lambda>a. (apt_id a, appointmentDate a))
     (assignedAppointments (fst (fetchAssignedAppointments example_parsing_env
        (doctor_init example_parsing_env,
         example_appointments_db ''April 30, 2025'' ''April 29, 2025'')))) =
     [(Some 2, js ''April 29, 2025''), (Some 1, js ''April 30, 2025'')]"
    by (simp add: fetchAssignedAppointments_def getDocs_def Let_def example_parsing_env_def
        example_env_def example_appointments_db_def example_appointment_def displayNameOr_def
        compareAppointments_def appointmentInstant_def example_dateParse_def sortCompare_def
        js_def doctor_init_def)
  from h1 i a b show ?thesis by blast
qed

end
